theory Spec2Isabelle
  imports Main "HOL-Library.AList"
begin

section \<open>The SIP service of FlexPhone\<close>

text \<open>
  A shallow embedding of the class \<open>SIPService\<close> of \<^verbatim>\<open>src/services/SIPService.js\<close>:
  the registration state, the Map of active calls, the call history, and the operations
  \<open>initialize\<close>, \<open>connect\<close>, \<open>disconnect\<close>, \<open>makeCall\<close>, \<open>answerCall\<close>,
  \<open>hangupCall\<close>, \<open>sendDTMF\<close>, \<open>simulateIncomingCall\<close>, \<open>getCallHistory\<close> and the
  timer callbacks they schedule.

  Conventions of the embedding.
  \<^item> Every operation of the class catches what it throws and returns
    \<open>{success: false, error: message}\<close>; the model returns \<open>Inl e\<close> with one constructor
    of \<open>error\<close> per message, and \<open>Inr r\<close> for \<open>{success: true, ...}\<close>.
  \<^item> A JavaScript value that may be \<open>undefined\<close> or \<open>null\<close> is an \<open>option\<close>.
  \<^item> \<open>new Date()\<close> is a parameter \<open>now\<close>, in milliseconds; the random bytes of
    \<open>generateCallId\<close> are a parameter \<open>rnd\<close>, already hex-encoded.
  \<^item> Call objects are shared by reference between the Map \<open>activeCalls\<close> and the timer
    callbacks, so they live in a store (\<open>heap\<close>) and a reference is an index into it.
  \<^item> The event loop runs one piece of code at a time. \<open>connect\<close> writes to the state on
    both sides of a wait of 1500 ms, so it is two steps, and whatever else is called
    during the wait runs between them. Every other operation has made its writes before
    its first wait on a timer or on the audio device, and is one step; the timer
    callbacks are steps of their own. Console output and the events handed to listeners
    are not part of the state, and a listener does not throw.
\<close>

subsection \<open>JavaScript truthiness and the operator \<open>||\<close>\<close>

definition truthy :: "string option \<Rightarrow> bool" where
  "truthy v = (case v of None \<Rightarrow> False | Some s \<Rightarrow> s \<noteq> [])"

definition truthy_num :: "int option \<Rightarrow> bool" where
  "truthy_num v = (case v of None \<Rightarrow> False | Some n \<Rightarrow> n \<noteq> 0)"

definition js_or :: "string option \<Rightarrow> string option \<Rightarrow> string option" where
  "js_or a b = (if truthy a then a else b)"

definition js_or_num :: "int option \<Rightarrow> int option \<Rightarrow> int option" where
  "js_or_num a b = (if truthy_num a then a else b)"

subsection \<open>Provider presets\<close>

text \<open>
  An entry of \<open>this.sipProviders\<close>. The fields \<open>transport\<close> and \<open>features\<close> of the source
  are \<open>preset_transport\<close> and \<open>preset_features\<close> here, the plain names being fields of
  the configuration below.
\<close>

record sipProvider =
  name :: "string option"
  defaultServer :: "string option"
  defaultPort :: "int option"
  preset_transport :: "string option"
  preset_features :: "string list option"

definition preset :: "string \<Rightarrow> string \<Rightarrow> int \<Rightarrow> string \<Rightarrow> string list \<Rightarrow> sipProvider" where
  "preset n srv prt tr fs =
     \<lparr>name = Some n, defaultServer = Some srv, defaultPort = Some prt,
      preset_transport = Some tr, preset_features = Some fs\<rparr>"

definition sipProviders :: "(string \<times> sipProvider) list" where
  "sipProviders =
    [(''FLEXPBX'', preset ''FlexPBX'' ''flexpbx.local'' 5070 ''UDP''
        [''calls'', ''sms'', ''presence'', ''conference'']),
     (''CALLCENTRIC'', preset ''CallCentric'' ''sip.callcentric.com'' 5060 ''UDP''
        [''calls'', ''sms'']),
     (''VOIPMS'', preset ''VoIP.ms'' ''server.voip.ms'' 5060 ''UDP'' [''calls'', ''sms'']),
     (''TWILIO'', preset ''Twilio'' ''edge.twilio.com'' 5060 ''TLS''
        [''calls'', ''sms'', ''video'']),
     (''GOOGLE_VOICE'', preset ''Google Voice'' ''voice.google.com'' 5060 ''TLS''
        [''calls'', ''sms'', ''voicemail'']),
     (''CUSTOM'', preset ''Custom SIP Provider'' [] 5060 ''UDP'' [''calls''])]"

text \<open>
  \<open>this.sipProviders[key]\<close> reads an object literal, so a key that is not one of the six
  presets still finds the properties every object inherits from \<open>Object.prototype\<close>:
  functions (whose \<open>name\<close> is the key, \<open>Object\<close> for \<open>constructor\<close>) and the prototype
  itself under \<open>__proto__\<close>. All of them are truthy and have none of the preset fields.
\<close>

definition inherited :: "string option \<Rightarrow> sipProvider" where
  "inherited n =
     \<lparr>name = n, defaultServer = None, defaultPort = None,
      preset_transport = None, preset_features = None\<rparr>"

definition objectPrototype :: "string \<Rightarrow> sipProvider option" where
  "objectPrototype key =
     (if key = ''constructor'' then Some (inherited (Some ''Object''))
      else if key = ''__proto__'' then Some (inherited None)
      else if List.member
        [''hasOwnProperty'', ''isPrototypeOf'', ''propertyIsEnumerable'', ''toLocaleString'',
         ''toString'', ''valueOf'', ''__defineGetter__'', ''__defineSetter__'',
         ''__lookupGetter__'', ''__lookupSetter__''] key
      then Some (inherited (Some key))
      else None)"

definition lookupProvider :: "string \<Rightarrow> sipProvider option" where
  "lookupProvider key =
     (case map_of sipProviders key of Some p \<Rightarrow> Some p | None \<Rightarrow> objectPrototype key)"

subsection \<open>Configuration\<close>

text \<open>The argument of \<open>connect\<close>, and the effective configuration \<open>sipConfig\<close> it stores.\<close>

record config =
  provider :: "string option"
  server :: "string option"
  port :: "int option"
  username :: "string option"
  password :: "string option"
  displayName :: "string option"
  transport :: "string option"

record sipConfig = config +
  features :: "string list option"

subsection \<open>Calls, errors and the state of the service\<close>

datatype call_direction = Outbound | Inbound

datatype call_status = Connecting | Ringing | Connected | Ended

text \<open>
  A call object. The fields \<open>id\<close> and \<open>provider\<close> of the source are \<open>call_id\<close> and
  \<open>call_provider\<close>. \<open>remoteName\<close> exists on inbound calls only and \<open>options\<close> on
  outbound calls only; an absent field is \<open>None\<close>. Times are milliseconds.
\<close>

record call =
  call_id :: string
  direction :: call_direction
  remoteNumber :: string
  remoteName :: "string option"
  localNumber :: "string option"
  status :: call_status
  startTime :: int
  connectTime :: "int option"
  endTime :: "int option"
  duration :: int
  call_provider :: "string option"
  options :: "(string \<times> string) list option"

datatype config_error =
  ProviderRequired | UnknownProvider | UsernameRequired | PasswordRequired | ServerRequired

text \<open>
  One constructor per error message: \<open>Invalid config: ...\<close>,
  \<open>Not connected to SIP server\<close>, \<open>Call not found\<close>,
  \<open>Cannot answer call in state: ...\<close>, \<open>No active calls\<close>, the \<open>TypeError\<close> of
  reading a property of \<open>null\<close>, and \<open>No connected call for DTMF\<close> of the
  SIP.js-backed service.
\<close>

datatype error =
  InvalidConfig config_error
  | NotConnected
  | CallNotFound
  | CannotAnswer call_status
  | NoActiveCalls
  | TypeError
  | NoConnectedCall

datatype registration = Unregistered | Registered | Failed

text \<open>
  A pending \<open>setTimeout\<close> callback: the two of \<open>simulateCallConnection\<close> (after 1000 ms
  and 3000 ms) and the one of \<open>simulateIncomingCall\<close> (after 30000 ms). Each closes over
  its call object, here the object's reference.
\<close>

datatype timer = RingingTimer nat | ConnectedTimer nat | AutoHangupTimer string nat

record sip_state =
  isConnected :: bool
  currentConfig :: "sipConfig option"
  registrationState :: registration
  activeCalls :: "(string \<times> nat) list"
  callHistory :: "call list"
  audioContext :: bool
  heap :: "call list"
  timers :: "timer list"
  registering :: nat

text \<open>
  \<open>registering\<close> counts the calls of \<open>connect\<close> that are waiting in
  \<open>simulateSIPRegistration\<close>.
  \<open>activeCalls\<close> is the JavaScript Map, in insertion order, from call id to the reference
  of the call object: \<open>map_of\<close> is \<open>get\<close>, \<open>AList.update\<close> is \<open>set\<close> (a present key
  keeps its place) and \<open>AList.delete\<close> is \<open>delete\<close>. \<open>heap\<close> holds every call object
  allocated so far; a new object gets the reference \<open>length (heap s)\<close>.
\<close>

definition deref :: "sip_state \<Rightarrow> nat \<Rightarrow> call option" where
  "deref s a = (if a < length (heap s) then Some (heap s ! a) else None)"

definition store :: "sip_state \<Rightarrow> nat \<Rightarrow> call \<Rightarrow> sip_state" where
  "store s a c = s\<lparr>heap := (heap s)[a := c]\<rparr>"

text \<open>The state the constructor builds; \<open>initialize\<close> may create the audio context.\<close>

definition SIPService_new :: sip_state where
  "SIPService_new =
     \<lparr>isConnected = False, currentConfig = None, registrationState = Unregistered,
      activeCalls = [], callHistory = [], audioContext = False, heap = [], timers = [],
      registering = 0\<rparr>"

definition initialize :: "sip_state \<Rightarrow> bool \<Rightarrow> sip_state" where
  "initialize s hasWindowAudio = (if hasWindowAudio then s\<lparr>audioContext := True\<rparr> else s)"

subsection \<open>validateConfig and connect\<close>

definition validateConfig :: "config \<Rightarrow> config_error option" where
  "validateConfig cfg =
     (if \<not> truthy (provider cfg) then Some ProviderRequired
      else if lookupProvider (the (provider cfg)) = None then Some UnknownProvider
      else if \<not> truthy (username cfg) then Some UsernameRequired
      else if \<not> truthy (password cfg) then Some PasswordRequired
      else if provider cfg = Some ''CUSTOM'' \<and> \<not> truthy (server cfg) then Some ServerRequired
      else None)"

definition effectiveConfig :: "config \<Rightarrow> sipProvider \<Rightarrow> sipConfig" where
  "effectiveConfig cfg p =
     \<lparr>provider = provider cfg,
      server = js_or (server cfg) (defaultServer p),
      port = js_or_num (port cfg) (defaultPort p),
      username = username cfg,
      password = password cfg,
      displayName = js_or (displayName cfg) (username cfg),
      transport = js_or (transport cfg) (preset_transport p),
      features = preset_features p\<rparr>"

text \<open>
  \<open>connect\<close> up to its \<open>await this.simulateSIPRegistration(sipConfig)\<close>. The \<open>catch\<close>
  block runs for a failed validation as for any other throw, and sets \<open>isConnected\<close> and
  \<open>registrationState\<close>; that path has no wait. After a passed validation the key is
  present, so the \<open>TypeError\<close> branch of the model is the read of a property of
  \<open>undefined\<close> that cannot happen there. Otherwise the effective configuration is
  stored and the call starts to wait: \<open>Inr sc\<close> is the configuration it will return.
\<close>

definition connect_begin :: "sip_state \<Rightarrow> config \<Rightarrow> sip_state \<times> (error + sipConfig)" where
  "connect_begin s cfg =
     (case validateConfig cfg of
        Some e \<Rightarrow>
          (s\<lparr>isConnected := False, registrationState := Failed\<rparr>, Inl (InvalidConfig e))
      | None \<Rightarrow>
          (case lookupProvider (the (provider cfg)) of
             None \<Rightarrow> (s\<lparr>isConnected := False, registrationState := Failed\<rparr>, Inl TypeError)
           | Some p \<Rightarrow>
               (let sc = effectiveConfig cfg p
                in (s\<lparr>currentConfig := Some sc, registering := Suc (registering s)\<rparr>, Inr sc))))"

text \<open>
  \<open>simulateSIPRegistration\<close> waits 1000 ms and then 500 ms and returns; it has no
  failing path and writes nothing. When it returns, \<open>connect\<close> goes on from the state
  it then finds: it sets the two flags and returns success with its configuration.
\<close>

definition connect_resume :: "sip_state \<Rightarrow> sip_state" where
  "connect_resume s =
     (if 0 < registering s
      then s\<lparr>registering := registering s - 1, isConnected := True,
             registrationState := Registered\<rparr>
      else s)"

text \<open>\<open>connect\<close> with nothing else called during its wait.\<close>

definition connect :: "sip_state \<Rightarrow> config \<Rightarrow> sip_state \<times> (error + sipConfig)" where
  "connect s cfg =
     (case connect_begin s cfg of
        (s1, Inl e) \<Rightarrow> (s1, Inl e)
      | (s1, Inr sc) \<Rightarrow> (connect_resume s1, Inr sc))"

subsection \<open>Calls\<close>

definition generateCallId :: "string \<Rightarrow> string" where
  "generateCallId rnd = ''call_'' @ rnd"

text \<open>
  \<open>simulateCallConnection\<close> schedules the two callbacks on the call object and returns.
\<close>

definition simulateCallConnection :: "sip_state \<Rightarrow> nat \<Rightarrow> sip_state" where
  "simulateCallConnection s a = s\<lparr>timers := timers s @ [RingingTimer a, ConnectedTimer a]\<rparr>"

definition makeCall ::
  "sip_state \<Rightarrow> string \<Rightarrow> (string \<times> string) list \<Rightarrow> string \<Rightarrow> int \<Rightarrow> sip_state \<times> (error + string)"
where
  "makeCall s number opts rnd now =
     (if \<not> isConnected s then (s, Inl NotConnected)
      else
        (let callId = generateCallId rnd in
         case currentConfig s of
           None \<Rightarrow> (s, Inl TypeError)
         | Some sc \<Rightarrow>
             (let c = \<lparr>call_id = callId, direction = Outbound, remoteNumber = number,
                       remoteName = None, localNumber = username sc, status = Connecting,
                       startTime = now, connectTime = None, endTime = None, duration = 0,
                       call_provider = provider sc, options = Some opts\<rparr>;
                  a = length (heap s);
                  s1 = s\<lparr>heap := heap s @ [c],
                         activeCalls := AList.update callId a (activeCalls s)\<rparr>
              in (simulateCallConnection s1 a, Inr callId))))"

text \<open>
  \<open>simulateIncomingCall\<close> has no \<open>try\<close>: the \<open>TypeError\<close> of a missing configuration
  reaches the caller. It returns the call object.
\<close>

definition simulateIncomingCall ::
  "sip_state \<Rightarrow> string \<Rightarrow> string option \<Rightarrow> string \<Rightarrow> int \<Rightarrow> sip_state \<times> (error + call)"
where
  "simulateIncomingCall s fromNumber fromName rnd now =
     (let callId = generateCallId rnd in
      case currentConfig s of
        None \<Rightarrow> (s, Inl TypeError)
      | Some sc \<Rightarrow>
          (let c = \<lparr>call_id = callId, direction = Inbound, remoteNumber = fromNumber,
                    remoteName = fromName, localNumber = username sc, status = Ringing,
                    startTime = now, connectTime = None, endTime = None, duration = 0,
                    call_provider = provider sc, options = None\<rparr>;
               a = length (heap s)
           in (s\<lparr>heap := heap s @ [c],
                 activeCalls := AList.update callId a (activeCalls s),
                 timers := timers s @ [AutoHangupTimer callId a]\<rparr>, Inr c)))"

text \<open>
  \<open>this.activeCalls.get(callId)\<close>: the reference under the key and the object it points
  to. A reference in the Map always points into the store; the model reads a reference
  that does not as \<open>undefined\<close>.
\<close>

definition getCall :: "sip_state \<Rightarrow> string \<Rightarrow> (nat \<times> call) option" where
  "getCall s callId =
     (case map_of (activeCalls s) callId of
        None \<Rightarrow> None
      | Some a \<Rightarrow> (case deref s a of None \<Rightarrow> None | Some c \<Rightarrow> Some (a, c)))"

text \<open>
  \<open>answerCall\<close>. \<open>initializeCallAudio\<close> catches its own errors and touches the audio
  stream only, which the model leaves out.
\<close>

definition answerCall :: "sip_state \<Rightarrow> string \<Rightarrow> int \<Rightarrow> sip_state \<times> (error + string)" where
  "answerCall s callId now =
     (case getCall s callId of
        None \<Rightarrow> (s, Inl CallNotFound)
      | Some (a, c) \<Rightarrow>
          (if status c \<noteq> Ringing then (s, Inl (CannotAnswer (status c)))
           else (store s a (c\<lparr>status := Connected, connectTime := Some now\<rparr>), Inr callId)))"

text \<open>
  \<open>hangupCall\<close> returns the call id and the duration. The history receives a copy of
  the object (\<open>{ ...call }\<close>), so later writes to the object do not reach it.
\<close>

definition endCall :: "call \<Rightarrow> int \<Rightarrow> call" where
  "endCall c now =
     (let c1 = c\<lparr>status := Ended, endTime := Some now\<rparr>
      in case connectTime c1 of
           None \<Rightarrow> c1
         | Some ct \<Rightarrow> c1\<lparr>duration := now - ct\<rparr>)"

definition hangupCall ::
  "sip_state \<Rightarrow> string \<Rightarrow> int \<Rightarrow> sip_state \<times> (error + string \<times> int)"
where
  "hangupCall s callId now =
     (case getCall s callId of
        None \<Rightarrow> (s, Inl CallNotFound)
      | Some (a, c) \<Rightarrow>
          (let c' = endCall c now;
               s1 = store s a c'
           in (s1\<lparr>callHistory := callHistory s1 @ [c'],
                  activeCalls := AList.delete callId (activeCalls s1)\<rparr>,
               Inr (callId, duration c'))))"

subsection \<open>Timer callbacks\<close>

text \<open>
  The callbacks write to the call object they closed over, whatever its state and
  whether or not it is still in the Map. A timer fires once, and only if it is pending.
\<close>

definition onTimer :: "sip_state \<Rightarrow> timer \<Rightarrow> int \<Rightarrow> sip_state" where
  "onTimer s t now =
     (case t of
        RingingTimer a \<Rightarrow>
          (case deref s a of
             None \<Rightarrow> s
           | Some c \<Rightarrow> store s a (c\<lparr>status := Ringing\<rparr>))
      | ConnectedTimer a \<Rightarrow>
          (case deref s a of
             None \<Rightarrow> s
           | Some c \<Rightarrow> store s a (c\<lparr>status := Connected, connectTime := Some now\<rparr>))
      | AutoHangupTimer callId a \<Rightarrow>
          (case deref s a of
             None \<Rightarrow> s
           | Some c \<Rightarrow>
               (if map_of (activeCalls s) callId \<noteq> None \<and> status c = Ringing
                then fst (hangupCall s callId now) else s)))"

definition fireTimer :: "sip_state \<Rightarrow> timer \<Rightarrow> int \<Rightarrow> sip_state" where
  "fireTimer s t now =
     (if List.member (timers s) t
      then onTimer (s\<lparr>timers := remove1 t (timers s)\<rparr>) t now
      else s)"

subsection \<open>DTMF\<close>

text \<open>The table \<open>dtmfFreqs\<close> of \<open>simulateDTMFTone\<close>: twelve symbols, no \<open>A\<close>-\<open>D\<close>.\<close>

definition dtmfFreqs :: "(char \<times> nat \<times> nat) list" where
  "dtmfFreqs =
    [(CHR ''1'', 697, 1209), (CHR ''2'', 697, 1336), (CHR ''3'', 697, 1477),
     (CHR ''4'', 770, 1209), (CHR ''5'', 770, 1336), (CHR ''6'', 770, 1477),
     (CHR ''7'', 852, 1209), (CHR ''8'', 852, 1336), (CHR ''9'', 852, 1477),
     (CHR ''*'', 941, 1209), (CHR ''0'', 941, 1336), (CHR ''#'', 941, 1477)]"

text \<open>
  \<open>simulateDTMFTone digit\<close> never fails: it plays the two frequencies when there is an
  audio context and the digit is in the table, and does nothing otherwise. The model
  returns what was played.
\<close>

definition simulateDTMFTone :: "sip_state \<Rightarrow> char \<Rightarrow> (nat \<times> nat) option" where
  "simulateDTMFTone s digit = (if audioContext s then map_of dtmfFreqs digit else None)"

text \<open>
  The loop \<open>for (const digit of digits)\<close> of \<open>sendDTMF\<close>: the digits handed to
  \<open>simulateDTMFTone\<close>, in order, each with the tone played for it.
\<close>

primrec dispatch :: "sip_state \<Rightarrow> string \<Rightarrow> (char \<times> (nat \<times> nat) option) list" where
  "dispatch s [] = []"
| "dispatch s (digit # digits) = (digit, simulateDTMFTone s digit) # dispatch s digits"

text \<open>
  The outcome of a successful \<open>sendDTMF\<close>: the \<open>dtmf-sent\<close> event (call id and digits)
  and the digits dispatched.
\<close>

record dtmf_sent =
  sent_callId :: string
  sent_digits :: string
  dispatched :: "(char \<times> (nat \<times> nat) option) list"

text \<open>
  \<open>sendDTMF(digits)\<close> takes no call id: the call is the first value of the Map. Neither
  the status of that call nor the digits are looked at before the loop.
\<close>

definition sendDTMF :: "sip_state \<Rightarrow> string \<Rightarrow> error + dtmf_sent" where
  "sendDTMF s digits =
     (case activeCalls s of
        [] \<Rightarrow> Inl NoActiveCalls
      | (k, a) # rest \<Rightarrow>
          (let d = dispatch s digits in
           case deref s a of
             None \<Rightarrow> Inl TypeError
           | Some activeCall \<Rightarrow>
               Inr \<lparr>sent_callId = call_id activeCall, sent_digits = digits, dispatched = d\<rparr>))"

subsection \<open>disconnect\<close>

text \<open>
  \<open>disconnect\<close> hangs up every active call, in the order of the Map, then clears the
  session. Each \<open>hangupCall\<close> reads the clock anew: \<open>clock i\<close> is the reading of the
  \<open>i\<close>-th iteration. \<open>hangupCall\<close> deletes only the key it is given, so iterating the
  live Map visits the keys it held at the start. The result is the message.
\<close>

primrec hangupAll :: "sip_state \<Rightarrow> string list \<Rightarrow> (nat \<Rightarrow> int) \<Rightarrow> sip_state" where
  "hangupAll s [] clock = s"
| "hangupAll s (callId # callIds) clock =
     hangupAll (fst (hangupCall s callId (clock 0))) callIds (\<lambda>i. clock (Suc i))"

definition disconnect :: "sip_state \<Rightarrow> (nat \<Rightarrow> int) \<Rightarrow> sip_state \<times> string" where
  "disconnect s clock =
     (if \<not> isConnected s then (s, ''Not connected'')
      else
        (let s1 = hangupAll s (map fst (activeCalls s)) clock
         in (s1\<lparr>isConnected := False, registrationState := Unregistered,
                currentConfig := None\<rparr>, ''Disconnected successfully'')))"

subsection \<open>getCallHistory\<close>

text \<open>
  \<open>getCallHistory(limit)\<close> sorts \<open>this.callHistory\<close> in place, latest \<open>startTime\<close>
  first (\<open>Array.prototype.sort\<close> is stable, as \<open>sort_key\<close> is), and returns the first
  \<open>limit\<close> entries: reading the history reorders it.
\<close>

definition getCallHistory :: "sip_state \<Rightarrow> nat \<Rightarrow> sip_state \<times> call list" where
  "getCallHistory s limit =
     (let sorted = sort_key (\<lambda>c. - startTime c) (callHistory s)
      in (s\<lparr>callHistory := sorted\<rparr>, take limit sorted))"

subsection \<open>The sibling \<open>EnhancedSIPService.sendDTMF\<close>\<close>

text \<open>
  The SIP.js-backed service (\<^verbatim>\<open>unnamed/part_008\<close>) sends DTMF on the first value of its
  Map as well, but looks at that call first. Its call objects carry the SIP.js session
  under \<open>sipCall\<close>: the argument pairs each value of the Map with whether that field is
  set. Sending one digit may throw, which the loop catches before going on to the next
  digit: \<open>accepts\<close> says which digits the session takes, and the result lists every
  digit attempted with its outcome.
\<close>

definition enhanced_sendDTMF ::
  "(call \<times> bool) list \<Rightarrow> (char \<Rightarrow> bool) \<Rightarrow> string \<Rightarrow> error + (char \<times> bool) list"
where
  "enhanced_sendDTMF activeCallValues accepts digits =
     (case activeCallValues of
        [] \<Rightarrow> Inl NoActiveCalls
      | (activeCall, sipCall) # rest \<Rightarrow>
          (if \<not> sipCall \<or> status activeCall \<noteq> Connected then Inl NoConnectedCall
           else Inr (map (\<lambda>digit. (digit, accepts digit)) digits)))"

subsection \<open>The features of a licence\<close>

text \<open>
  \<open>FeatureManagementService\<close> (\<^verbatim>\<open>unnamed/part_006\<close>) keeps for every feature id whether
  the feature is enabled, the licence level it needs, its name and its numeric limits
  (\<open>maxProviders\<close>, \<open>maxCalls\<close>). The fields \<open>enabled\<close>, \<open>level\<close> and \<open>name\<close> of the
  source are \<open>feature_enabled\<close>, \<open>feature_level\<close> and \<open>feature_name\<close> here. The levels
  are the keys of \<open>levelHierarchy\<close>, for which the default of
  \<open>levelHierarchy[level] || 1\<close> is never taken.
\<close>

datatype license_level = Community | Professional | Enterprise | Lifetime | Admin | Dynamic

record feature =
  feature_enabled :: bool
  feature_level :: license_level
  feature_name :: string
  limits :: "(string \<times> nat) list"

definition feature_decl :: "bool \<Rightarrow> license_level \<Rightarrow> string \<Rightarrow> (string \<times> nat) list \<Rightarrow> feature" where
  "feature_decl e l n ls =
     \<lparr>feature_enabled = e, feature_level = l, feature_name = n, limits = ls\<rparr>"

definition defaultFeatures :: "(string \<times> feature) list" where
  "defaultFeatures =
    [(''core.dialer'', feature_decl True Community ''Basic Dialer'' []),
     (''core.contacts'', feature_decl True Community ''Contacts Management'' []),
     (''core.sip_basic'', feature_decl True Community ''Basic SIP Support'' []),
     (''core.accessibility'', feature_decl True Community ''Accessibility Features'' []),
     (''core.ringtones_basic'', feature_decl True Community ''Basic Ringtones'' []),
     (''pro.external_providers'',
        feature_decl False Professional ''External SIP Providers'' [(''maxProviders'', 2)]),
     (''pro.call_recording_local'', feature_decl False Professional ''Local Call Recording'' []),
     (''pro.concurrent_calls'',
        feature_decl False Professional ''Multiple Concurrent Calls'' [(''maxCalls'', 5)]),
     (''pro.call_waiting'', feature_decl False Professional ''Call Waiting'' []),
     (''pro.voicemail_advanced'', feature_decl False Professional ''Advanced Voicemail'' []),
     (''pro.conference_calls'', feature_decl False Professional ''Conference Calling'' []),
     (''ent.cloud_recording'', feature_decl False Enterprise ''Cloud Call Recording'' []),
     (''ent.analytics'', feature_decl False Enterprise ''Call Analytics'' []),
     (''ent.multi_tenant'', feature_decl False Enterprise ''Multi-Tenant Support'' []),
     (''ent.api_access'', feature_decl False Enterprise ''API Access'' []),
     (''ent.custom_integrations'', feature_decl False Enterprise ''Custom Integrations'' []),
     (''ent.unlimited_providers'', feature_decl False Enterprise ''Unlimited SIP Providers'' []),
     (''admin.feature_push'', feature_decl False Admin ''Feature Push to Other Instances'' []),
     (''admin.license_management'', feature_decl False Admin ''License Management'' []),
     (''admin.global_settings'', feature_decl False Admin ''Global Settings Management'' []),
     (''admin.user_management'', feature_decl False Admin ''User Management'' []),
     (''admin.server_monitoring'', feature_decl False Admin ''Server Monitoring'' []),
     (''dynamic.custom_modules'', feature_decl False Dynamic ''Custom Modules'' []),
     (''dynamic.beta_features'', feature_decl False Dynamic ''Beta Features'' []),
     (''dynamic.special_integrations'', feature_decl False Dynamic ''Special Integrations'' [])]"

definition levelHierarchy :: "license_level \<Rightarrow> nat" where
  "levelHierarchy l =
     (case l of Community \<Rightarrow> 1 | Professional \<Rightarrow> 2 | Enterprise \<Rightarrow> 3 | Lifetime \<Rightarrow> 2
      | Admin \<Rightarrow> 4 | Dynamic \<Rightarrow> 5)"

definition isFeatureAllowed :: "license_level \<Rightarrow> license_level \<Rightarrow> bool" where
  "isFeatureAllowed licenseLevel requiredLevel =
     (levelHierarchy requiredLevel \<le> levelHierarchy licenseLevel)"

text \<open>
  The Map \<open>this.features\<close> that \<open>initializeFeatures\<close> builds for a licence level; the
  constructor builds it for \<open>community\<close>.
\<close>

definition initializeFeatures :: "license_level \<Rightarrow> (string \<times> feature) list" where
  "initializeFeatures licenseLevel =
     map (\<lambda>(featureId, config).
            (featureId, config\<lparr>feature_enabled := isFeatureAllowed licenseLevel (feature_level config)\<rparr>))
       defaultFeatures"

definition isFeatureEnabled :: "(string \<times> feature) list \<Rightarrow> string \<Rightarrow> bool" where
  "isFeatureEnabled fs featureId =
     (case map_of fs featureId of None \<Rightarrow> False | Some f \<Rightarrow> feature_enabled f)"

text \<open>
  \<open>getFeatureLimit\<close>, documented as \<open>Get feature limits (e.g., max concurrent calls)\<close>,
  for a \<open>limitType\<close> that names a numeric limit: \<open>0\<close> for a feature that is unknown or
  not enabled, and \<open>feature[limitType] || Infinity\<close> otherwise.
\<close>

datatype limit = Limit nat | Infinity

definition getFeatureLimit :: "(string \<times> feature) list \<Rightarrow> string \<Rightarrow> string \<Rightarrow> limit" where
  "getFeatureLimit fs featureId limitType =
     (case map_of fs featureId of
        None \<Rightarrow> Limit 0
      | Some f \<Rightarrow>
          (if \<not> feature_enabled f then Limit 0
           else (case map_of (limits f) limitType of
                   None \<Rightarrow> Infinity
                 | Some n \<Rightarrow> if n = 0 then Infinity else Limit n)))"

subsection \<open>Reachable states\<close>

text \<open>
  What the event loop can run on the service: a public operation, the resumption of a
  waiting \<open>connect\<close>, or a pending timer. \<open>sendDTMF\<close> and the getters other than
  \<open>getCallHistory\<close> leave the state as it is. The reachable states are the
  constructor's and whatever a step makes of a reachable state.
\<close>

datatype operation =
  Initialize bool
  | ConnectBegin config
  | ConnectResume
  | Disconnect "nat \<Rightarrow> int"
  | MakeCall string "(string \<times> string) list" string int
  | SimulateIncomingCall string "string option" string int
  | AnswerCall string int
  | HangupCall string int
  | FireTimer timer int
  | GetCallHistory nat

definition step :: "sip_state \<Rightarrow> operation \<Rightarrow> sip_state" where
  "step s op =
     (case op of
        Initialize b \<Rightarrow> initialize s b
      | ConnectBegin cfg \<Rightarrow> fst (connect_begin s cfg)
      | ConnectResume \<Rightarrow> connect_resume s
      | Disconnect clock \<Rightarrow> fst (disconnect s clock)
      | MakeCall number opts rnd now \<Rightarrow> fst (makeCall s number opts rnd now)
      | SimulateIncomingCall fromNumber fromName rnd now \<Rightarrow>
          fst (simulateIncomingCall s fromNumber fromName rnd now)
      | AnswerCall callId now \<Rightarrow> fst (answerCall s callId now)
      | HangupCall callId now \<Rightarrow> fst (hangupCall s callId now)
      | FireTimer t now \<Rightarrow> fireTimer s t now
      | GetCallHistory limit \<Rightarrow> fst (getCallHistory s limit))"

inductive reachable :: "sip_state \<Rightarrow> bool" where
  r_new: "reachable SIPService_new"
| r_step: "reachable s \<Longrightarrow> reachable (step s op)"

text \<open>
  Invariants of the reachable states. The session: \<open>isConnected\<close> and
  \<open>registrationState\<close> move together. The calls: the references in the Map are distinct
  and point into the store, at objects whose \<open>duration\<close> is still the \<open>0\<close> they were
  created with. The history: every entry has an end time and the duration that
  \<open>hangupCall\<close> computed from it. Inbound calls: the two timers of
  \<open>simulateCallConnection\<close> are pending on outbound calls only, and an inbound call
  that is ringing has no connect time.
\<close>

definition session_inv :: "sip_state \<Rightarrow> bool" where
  "session_inv s = (isConnected s = (registrationState s = Registered))"

definition calls_inv :: "sip_state \<Rightarrow> bool" where
  "calls_inv s =
     (distinct (map snd (activeCalls s)) \<and>
      list_all (\<lambda>(k, a). a < length (heap s) \<and> duration (heap s ! a) = 0) (activeCalls s))"

definition ended :: "call \<Rightarrow> bool" where
  "ended h =
     (case endTime h of
        None \<Rightarrow> False
      | Some e \<Rightarrow> duration h = (case connectTime h of None \<Rightarrow> 0 | Some ct \<Rightarrow> e - ct))"

definition history_inv :: "sip_state \<Rightarrow> bool" where
  "history_inv s = list_all ended (callHistory s)"

definition timer_outbound :: "call list \<Rightarrow> timer \<Rightarrow> bool" where
  "timer_outbound h t =
     (case t of
        RingingTimer a \<Rightarrow> a < length h \<and> direction (h ! a) = Outbound
      | ConnectedTimer a \<Rightarrow> a < length h \<and> direction (h ! a) = Outbound
      | AutoHangupTimer callId a \<Rightarrow> True)"

definition unanswered :: "call \<Rightarrow> bool" where
  "unanswered c = (direction c = Outbound \<or> status c \<noteq> Ringing \<or> connectTime c = None)"

definition inbound_inv :: "sip_state \<Rightarrow> bool" where
  "inbound_inv s = (list_all (timer_outbound (heap s)) (timers s) \<and> list_all unanswered (heap s))"

subsection \<open>A scenario\<close>

text \<open>
  The configuration \<open>{provider: 'FLEXPBX', username: 'alice', password: 'secret'}\<close>, the
  service after \<open>connect\<close> with it, and an outbound call to \<open>5551234\<close> placed at time
  \<open>0\<close>: just placed, after its first timer (ringing), and after both (connected).
  \<open>alice_sipConfig\<close> is the effective configuration of that session and
  \<open>scenario_call st ct\<close> the call object with status \<open>st\<close> and connect time \<open>ct\<close>.
\<close>

definition alice :: config where
  "alice =
     \<lparr>provider = Some ''FLEXPBX'', server = None, port = None, username = Some ''alice'',
      password = Some ''secret'', displayName = None, transport = None\<rparr>"

definition alice_sipConfig :: sipConfig where
  "alice_sipConfig =
     \<lparr>provider = Some ''FLEXPBX'', server = Some ''flexpbx.local'', port = Some 5070,
      username = Some ''alice'', password = Some ''secret'', displayName = Some ''alice'',
      transport = Some ''UDP'',
      features = Some [''calls'', ''sms'', ''presence'', ''conference'']\<rparr>"

definition registered :: sip_state where
  "registered = fst (connect SIPService_new alice)"

definition scenario_call :: "call_status \<Rightarrow> int option \<Rightarrow> call" where
  "scenario_call st ct =
     \<lparr>call_id = ''call_0123456789abcdef'', direction = Outbound, remoteNumber = ''5551234'',
      remoteName = None, localNumber = Some ''alice'', status = st, startTime = 0,
      connectTime = ct, endTime = None, duration = 0, call_provider = Some ''FLEXPBX'',
      options = Some []\<rparr>"

definition calling :: sip_state where
  "calling = fst (makeCall registered ''5551234'' [] ''0123456789abcdef'' 0)"

definition ringing :: sip_state where
  "ringing = fireTimer calling (RingingTimer 0) 1000"

definition talking :: sip_state where
  "talking = fireTimer ringing (ConnectedTimer 0) 3000"

text \<open>
  A second session, with a provider whose features are \<open>calls\<close> and \<open>sms\<close> only, and
  one outbound call placed on it.
\<close>

definition carol :: config where
  "carol =
     \<lparr>provider = Some ''CALLCENTRIC'', server = None, port = None, username = Some ''carol'',
      password = Some ''secret'', displayName = None, transport = None\<rparr>"

definition carol_sipConfig :: sipConfig where
  "carol_sipConfig =
     \<lparr>provider = Some ''CALLCENTRIC'', server = Some ''sip.callcentric.com'', port = Some 5060,
      username = Some ''carol'', password = Some ''secret'', displayName = Some ''carol'',
      transport = Some ''UDP'', features = Some [''calls'', ''sms'']\<rparr>"

definition carol_calling :: sip_state where
  "carol_calling =
     fst (makeCall (fst (connect SIPService_new carol)) ''5551234'' [] ''0123456789abcdef'' 0)"

text \<open>
  An inbound call: \<open>testIncomingCall\<close> on the registered service at time \<open>0\<close>.
\<close>

definition inbound_call :: "call_status \<Rightarrow> int option \<Rightarrow> call" where
  "inbound_call st ct =
     \<lparr>call_id = ''call_00000000000000aa'', direction = Inbound,
      remoteNumber = ''+1 (336) 462-6141'', remoteName = Some ''Test Caller'',
      localNumber = Some ''alice'', status = st, startTime = 0, connectTime = ct,
      endTime = None, duration = 0, call_provider = Some ''FLEXPBX'', options = None\<rparr>"

definition incoming :: sip_state where
  "incoming =
     fst (simulateIncomingCall registered ''+1 (336) 462-6141'' (Some ''Test Caller'')
            ''00000000000000aa'' 0)"

text \<open>
  A service that is connected and has no configuration: a second \<open>connect\<close> is begun on
  the registered service, \<open>disconnect\<close> is called during its wait, and the \<open>connect\<close>
  then resumes.
\<close>

definition reconnected :: sip_state where
  "reconnected = connect_resume (fst (disconnect (fst (connect_begin registered alice)) (\<lambda>i. 0)))"

section \<open>Properties\<close>

subsection \<open>The store and the Map\<close>

lemma deref_store: "deref (store s a c) b = (if b = a \<and> a < length (heap s) then Some c else deref s b)"
  by (simp add: deref_def store_def)

lemma store_fields:
  "isConnected (store s a c) = isConnected s"
  "currentConfig (store s a c) = currentConfig s"
  "registrationState (store s a c) = registrationState s"
  "activeCalls (store s a c) = activeCalls s"
  "callHistory (store s a c) = callHistory s"
  "audioContext (store s a c) = audioContext s"
  "timers (store s a c) = timers s"
  "length (heap (store s a c)) = length (heap s)"
  by (simp_all add: store_def)

lemma getCall_SomeD:
  "getCall s k = Some (a, c) \<Longrightarrow> map_of (activeCalls s) k = Some a \<and> a < length (heap s) \<and> heap s ! a = c"
  by (auto simp: getCall_def deref_def split: option.splits if_splits)

subsection \<open>Steps\<close>

lemma connect_fst:
  "fst (connect s cfg) = fst (connect_begin s cfg) \<or>
   fst (connect s cfg) = connect_resume (fst (connect_begin s cfg))"
  by (cases "connect_begin s cfg"; cases "snd (connect_begin s cfg)") (auto simp: connect_def)

lemma reachable_ops:
  assumes "reachable s"
  shows "reachable (initialize s b)"
    and "reachable (fst (connect_begin s cfg))"
    and "reachable (connect_resume s)"
    and "reachable (fst (disconnect s clock))"
    and "reachable (fst (makeCall s number opts rnd now))"
    and "reachable (fst (simulateIncomingCall s fromNumber fromName rnd now))"
    and "reachable (fst (answerCall s callId now))"
    and "reachable (fst (hangupCall s callId now))"
    and "reachable (fireTimer s t now)"
    and "reachable (fst (getCallHistory s limit))"
  using r_step [OF assms, of "Initialize b"] r_step [OF assms, of "ConnectBegin cfg"]
    r_step [OF assms, of ConnectResume] r_step [OF assms, of "Disconnect clock"]
    r_step [OF assms, of "MakeCall number opts rnd now"]
    r_step [OF assms, of "SimulateIncomingCall fromNumber fromName rnd now"]
    r_step [OF assms, of "AnswerCall callId now"] r_step [OF assms, of "HangupCall callId now"]
    r_step [OF assms, of "FireTimer t now"] r_step [OF assms, of "GetCallHistory limit"]
  by (simp_all add: step_def)

lemma reachable_connect:
  assumes "reachable s"
  shows "reachable (fst (connect s cfg))"
proof -
  from assms have 1: "reachable (fst (connect_begin s cfg))" by (rule reachable_ops)
  then have "reachable (connect_resume (fst (connect_begin s cfg)))" by (rule reachable_ops)
  with 1 connect_fst [of s cfg] show ?thesis by auto
qed

lemma reachable_invariant:
  assumes "reachable s" and "P SIPService_new" and "\<And>s op. P s \<Longrightarrow> P (step s op)"
  shows "P s"
  using assms(1) by (induction rule: reachable.induct) (simp_all add: assms(2,3))

subsection \<open>The session invariant\<close>

lemma hangupCall_session:
  "isConnected (fst (hangupCall s k t)) = isConnected s"
  "currentConfig (fst (hangupCall s k t)) = currentConfig s"
  "registrationState (fst (hangupCall s k t)) = registrationState s"
  by (simp_all add: hangupCall_def Let_def store_fields split: option.splits prod.splits)

lemma hangupAll_session:
  "isConnected (hangupAll s ks clock) = isConnected s \<and>
   currentConfig (hangupAll s ks clock) = currentConfig s \<and>
   registrationState (hangupAll s ks clock) = registrationState s"
  by (induction ks arbitrary: s clock) (simp_all add: hangupCall_session)

lemma onTimer_session:
  "isConnected (onTimer s t now) = isConnected s"
  "currentConfig (onTimer s t now) = currentConfig s"
  "registrationState (onTimer s t now) = registrationState s"
  by (simp_all add: onTimer_def store_fields hangupCall_session split: timer.splits option.splits)

lemma session_inv_step: "session_inv s \<Longrightarrow> session_inv (step s op)"
  by (cases op)
    (auto simp: step_def session_inv_def initialize_def connect_begin_def connect_resume_def
      disconnect_def hangupAll_session makeCall_def simulateCallConnection_def
      simulateIncomingCall_def answerCall_def store_fields hangupCall_session fireTimer_def
      onTimer_session getCallHistory_def Let_def split: option.splits)

lemma session_inv_reachable: "reachable s \<Longrightarrow> session_inv s"
proof (erule reachable_invariant)
  show "session_inv SIPService_new" by (simp add: session_inv_def SIPService_new_def)
qed (rule session_inv_step)

subsection \<open>The calls invariant\<close>

lemma set_update_subset: "set (AList.update k v xs) \<subseteq> insert (k, v) (set xs)"
  by (induction xs) auto

lemma distinct_snd_update:
  "distinct (map snd xs) \<Longrightarrow> v \<notin> snd ` set xs \<Longrightarrow> distinct (map snd (AList.update k v xs))"
proof (induction xs)
  case Nil
  then show ?case by simp
next
  case (Cons p xs)
  have "snd ` set (AList.update k v xs) \<subseteq> insert v (snd ` set xs)"
    using set_update_subset [of k v xs] by force
  with Cons show ?case by (auto simp: image_iff)
qed

lemma set_delete_subset: "set (AList.delete k xs) \<subseteq> set xs"
  by (auto simp: AList.delete_eq)

lemma distinct_snd_delete:
  "distinct (map snd xs) \<Longrightarrow> distinct (map snd (AList.delete k xs))"
  by (simp add: AList.delete_eq distinct_map_filter)

lemma delete_other_ref:
  assumes "distinct (map snd xs)" and "map_of xs k = Some a"
    and "(k', a') \<in> set (AList.delete k xs)"
  shows "a' \<noteq> a"
proof
  assume "a' = a"
  from assms(1) have inj: "inj_on snd (set xs)" by (simp add: distinct_map)
  from assms(2) have 1: "(k, a) \<in> set xs" by (rule map_of_SomeD)
  from assms(3) have 2: "(k', a') \<in> set xs" and ne: "k' \<noteq> k"
    by (auto simp: AList.delete_eq)
  from inj_onD [OF inj _ 1 2] \<open>a' = a\<close> have "(k, a) = (k', a')" by simp
  with ne show False by simp
qed

lemma calls_inv_iff:
  "calls_inv s \<longleftrightarrow>
     distinct (map snd (activeCalls s)) \<and>
     (\<forall>(k, a) \<in> set (activeCalls s). a < length (heap s) \<and> duration (heap s ! a) = 0)"
  by (simp add: calls_inv_def list_all_iff)

lemma calls_inv_new_call:
  assumes "calls_inv s" and "duration c = 0"
  shows "calls_inv (s\<lparr>heap := heap s @ [c],
                      activeCalls := AList.update k (length (heap s)) (activeCalls s)\<rparr>)"
proof -
  from assms(1) have d: "distinct (map snd (activeCalls s))"
    and b: "\<And>k a. (k, a) \<in> set (activeCalls s) \<Longrightarrow> a < length (heap s) \<and> duration (heap s ! a) = 0"
    by (auto simp: calls_inv_iff)
  from b have fresh: "length (heap s) \<notin> snd ` set (activeCalls s)" by force
  have "distinct (map snd (AList.update k (length (heap s)) (activeCalls s)))"
    using d fresh by (rule distinct_snd_update)
  moreover have "a < Suc (length (heap s)) \<and> duration ((heap s @ [c]) ! a) = 0"
    if "(k', a) \<in> set (AList.update k (length (heap s)) (activeCalls s))" for k' a
  proof -
    from that set_update_subset [of k "length (heap s)" "activeCalls s"]
    have "(k', a) = (k, length (heap s)) \<or> (k', a) \<in> set (activeCalls s)" by auto
    then show ?thesis using b assms(2) by (auto simp: nth_append)
  qed
  ultimately show ?thesis by (auto simp: calls_inv_iff)
qed

lemma calls_inv_store:
  assumes "calls_inv s" and "a < length (heap s) \<Longrightarrow> duration c = duration (heap s ! a)"
  shows "calls_inv (store s a c)"
proof -
  have "duration ((heap s)[a := c] ! b) = duration (heap s ! b)" for b
  proof (cases "a < length (heap s)")
    case True
    with assms(2) show ?thesis by (simp add: nth_list_update)
  next
    case False
    then have "(heap s)[a := c] = heap s" by (simp add: not_less list_update_beyond)
    then show ?thesis by simp
  qed
  with assms(1) show ?thesis by (simp add: calls_inv_def store_def)
qed

lemma calls_inv_timers [simp]: "calls_inv (s\<lparr>timers := ts\<rparr>) = calls_inv s"
  by (simp add: calls_inv_def)

lemma duration_deref:
  "calls_inv s \<Longrightarrow> getCall s k = Some (a, c) \<Longrightarrow> duration c = 0"
  by (auto simp: calls_inv_iff dest!: getCall_SomeD map_of_SomeD)

lemma calls_inv_makeCall: "calls_inv s \<Longrightarrow> calls_inv (fst (makeCall s number opts rnd now))"
  by (simp add: makeCall_def simulateCallConnection_def Let_def calls_inv_new_call
      split: option.splits)

lemma calls_inv_incoming:
  "calls_inv s \<Longrightarrow> calls_inv (fst (simulateIncomingCall s fromNumber fromName rnd now))"
  by (simp add: simulateIncomingCall_def Let_def calls_inv_new_call split: option.splits)

lemma calls_inv_answerCall: "calls_inv s \<Longrightarrow> calls_inv (fst (answerCall s callId now))"
  by (auto simp: answerCall_def intro!: calls_inv_store dest!: getCall_SomeD split: option.splits)

lemma calls_inv_hangupCall:
  assumes "calls_inv s"
  shows "calls_inv (fst (hangupCall s callId now))"
proof (cases "getCall s callId")
  case None
  with assms show ?thesis by (simp add: hangupCall_def)
next
  case (Some p)
  obtain a c where p: "p = (a, c)" by (cases p)
  from Some p have m: "map_of (activeCalls s) callId = Some a" by (auto dest: getCall_SomeD)
  from assms have d: "distinct (map snd (activeCalls s))"
    and b: "\<And>k a. (k, a) \<in> set (activeCalls s) \<Longrightarrow> a < length (heap s) \<and> duration (heap s ! a) = 0"
    by (auto simp: calls_inv_iff)
  have "a' < length (heap s) \<and> duration ((heap s)[a := endCall c now] ! a') = 0"
    if "(k', a') \<in> set (AList.delete callId (activeCalls s))" for k' a'
  proof -
    from d m that have "a' \<noteq> a" by (rule delete_other_ref)
    moreover from that set_delete_subset have "(k', a') \<in> set (activeCalls s)" by fastforce
    ultimately show ?thesis using b by auto
  qed
  with d show ?thesis
    using Some p by (auto simp: hangupCall_def Let_def store_def calls_inv_iff distinct_snd_delete)
qed

lemma calls_inv_hangupAll: "calls_inv s \<Longrightarrow> calls_inv (hangupAll s ks clock)"
  by (induction ks arbitrary: s clock) (simp_all add: calls_inv_hangupCall)

lemma calls_inv_onTimer: "calls_inv s \<Longrightarrow> calls_inv (onTimer s t now)"
  by (cases t)
    (auto simp: onTimer_def calls_inv_hangupCall deref_def intro!: calls_inv_store
      split: option.splits if_splits)

lemma calls_inv_step:
  assumes "calls_inv s"
  shows "calls_inv (step s op)"
proof (cases op)
  case (Initialize b)
  with assms show ?thesis by (simp add: step_def calls_inv_def initialize_def)
next
  case (ConnectBegin cfg)
  with assms show ?thesis
    by (auto simp: step_def calls_inv_def connect_begin_def Let_def split: option.splits)
next
  case ConnectResume
  with assms show ?thesis by (simp add: step_def calls_inv_def connect_resume_def)
next
  case (Disconnect clock)
  from assms have "calls_inv (hangupAll s (map fst (activeCalls s)) clock)"
    by (rule calls_inv_hangupAll)
  with assms Disconnect show ?thesis
    by (auto simp: step_def disconnect_def Let_def calls_inv_def)
next
  case (MakeCall number opts rnd now)
  with assms show ?thesis by (simp add: step_def calls_inv_makeCall)
next
  case (SimulateIncomingCall fromNumber fromName rnd now)
  with assms show ?thesis by (simp add: step_def calls_inv_incoming)
next
  case (AnswerCall callId now)
  with assms show ?thesis by (simp add: step_def calls_inv_answerCall)
next
  case (HangupCall callId now)
  with assms show ?thesis by (simp add: step_def calls_inv_hangupCall)
next
  case (FireTimer t now)
  with assms show ?thesis by (simp add: step_def fireTimer_def calls_inv_onTimer)
next
  case (GetCallHistory limit)
  with assms show ?thesis by (simp add: step_def calls_inv_def getCallHistory_def Let_def)
qed

lemma calls_inv_reachable: "reachable s \<Longrightarrow> calls_inv s"
proof (erule reachable_invariant)
  show "calls_inv SIPService_new" by (simp add: calls_inv_def SIPService_new_def)
qed (rule calls_inv_step)

subsection \<open>The history invariant\<close>

lemma ended_endCall: "duration c = 0 \<Longrightarrow> ended (endCall c now)"
  by (simp add: ended_def endCall_def Let_def split: option.splits)

lemma history_hangupCall:
  assumes "calls_inv s" and "history_inv s"
  shows "history_inv (fst (hangupCall s callId now))"
proof (cases "getCall s callId")
  case None
  with assms(2) show ?thesis by (simp add: hangupCall_def)
next
  case (Some p)
  obtain a c where p: "p = (a, c)" by (cases p)
  from assms(1) Some p have "duration c = 0" by (simp add: duration_deref)
  then have "ended (endCall c now)" by (rule ended_endCall)
  with assms(2) Some p show ?thesis
    by (simp add: hangupCall_def Let_def store_def history_inv_def)
qed

lemma history_hangupAll:
  "calls_inv s \<Longrightarrow> history_inv s \<Longrightarrow> history_inv (hangupAll s ks clock)"
  by (induction ks arbitrary: s clock) (simp_all add: calls_inv_hangupCall history_hangupCall)

lemma history_store [simp]: "history_inv (store s a c) = history_inv s"
  by (simp add: history_inv_def store_def)

lemma history_onTimer:
  "calls_inv s \<Longrightarrow> history_inv s \<Longrightarrow> history_inv (onTimer s t now)"
  by (cases t) (auto simp: onTimer_def history_hangupCall split: option.splits)

lemma history_inv_step:
  assumes "calls_inv s" and "history_inv s"
  shows "history_inv (step s op)"
proof (cases op)
  case (Initialize b)
  with assms show ?thesis by (simp add: step_def history_inv_def initialize_def)
next
  case (ConnectBegin cfg)
  with assms show ?thesis
    by (auto simp: step_def history_inv_def connect_begin_def Let_def split: option.splits)
next
  case ConnectResume
  with assms show ?thesis by (simp add: step_def history_inv_def connect_resume_def)
next
  case (Disconnect clock)
  from assms have "history_inv (hangupAll s (map fst (activeCalls s)) clock)"
    by (rule history_hangupAll)
  with assms Disconnect show ?thesis
    by (auto simp: step_def disconnect_def Let_def history_inv_def)
next
  case (MakeCall number opts rnd now)
  with assms show ?thesis
    by (auto simp: step_def history_inv_def makeCall_def simulateCallConnection_def Let_def
        split: option.splits)
next
  case (SimulateIncomingCall fromNumber fromName rnd now)
  with assms show ?thesis
    by (auto simp: step_def history_inv_def simulateIncomingCall_def Let_def split: option.splits)
next
  case (AnswerCall callId now)
  with assms show ?thesis by (auto simp: step_def answerCall_def split: option.splits)
next
  case (HangupCall callId now)
  with assms show ?thesis by (simp add: step_def history_hangupCall)
next
  case (FireTimer t now)
  have "calls_inv (s\<lparr>timers := ts\<rparr>)" "history_inv (s\<lparr>timers := ts\<rparr>)" for ts
    using assms by (simp_all add: history_inv_def)
  with FireTimer assms show ?thesis by (simp add: step_def fireTimer_def history_onTimer)
next
  case (GetCallHistory limit)
  with assms show ?thesis
    by (simp add: step_def history_inv_def getCallHistory_def Let_def list_all_iff)
qed

lemma history_inv_reachable: "reachable s \<Longrightarrow> history_inv s"
proof -
  assume "reachable s"
  then have "calls_inv s \<and> history_inv s"
  proof (rule reachable_invariant)
    show "calls_inv SIPService_new \<and> history_inv SIPService_new"
      by (simp add: calls_inv_def history_inv_def SIPService_new_def)
  qed (simp add: calls_inv_step history_inv_step)
  then show ?thesis by simp
qed

subsection \<open>The invariant of inbound calls\<close>

lemma timer_outbound_append:
  "timer_outbound h t \<Longrightarrow> timer_outbound (h @ [c]) t"
  by (cases t) (auto simp: timer_outbound_def nth_append)

lemma direction_update:
  assumes "a < length h \<Longrightarrow> direction c = direction (h ! a)"
  shows "direction (h[a := c] ! b) = direction (h ! b)"
proof (cases "a < length h")
  case True
  with assms show ?thesis by (simp add: nth_list_update)
next
  case False
  then have "h[a := c] = h" by (simp add: not_less list_update_beyond)
  then show ?thesis by simp
qed

lemma timer_outbound_update:
  assumes "timer_outbound h t" and "a < length h \<Longrightarrow> direction c = direction (h ! a)"
  shows "timer_outbound (h[a := c]) t"
  using assms(1) direction_update [OF assms(2)]
  by (cases t) (auto simp: timer_outbound_def)

lemma inbound_inv_iff:
  "inbound_inv s \<longleftrightarrow>
     (\<forall>t \<in> set (timers s). timer_outbound (heap s) t) \<and> (\<forall>c \<in> set (heap s). unanswered c)"
  by (simp add: inbound_inv_def list_all_iff)

lemma inbound_inv_store:
  assumes "inbound_inv s" and "unanswered c"
    and "a < length (heap s) \<Longrightarrow> direction c = direction (heap s ! a)"
  shows "inbound_inv (store s a c)"
proof -
  have "set ((heap s)[a := c]) \<subseteq> insert c (set (heap s))" by (rule set_update_subset_insert)
  with assms show ?thesis
    by (auto simp: inbound_inv_iff store_def timer_outbound_update)
qed

lemma inbound_inv_new:
  assumes "inbound_inv s" and "unanswered c"
    and "\<forall>t \<in> set ts. timer_outbound (heap s @ [c]) t"
  shows "inbound_inv (s\<lparr>heap := heap s @ [c], activeCalls := ac, timers := timers s @ ts\<rparr>)"
  using assms by (auto simp: inbound_inv_iff timer_outbound_append)

lemma inbound_inv_remove:
  "inbound_inv s \<Longrightarrow> inbound_inv (s\<lparr>timers := remove1 t (timers s)\<rparr>)"
  by (auto simp: inbound_inv_iff dest: notin_set_remove1)

lemma unanswered_endCall: "unanswered (endCall c now)"
  by (simp add: unanswered_def endCall_def Let_def split: option.splits)

lemma direction_endCall: "direction (endCall c now) = direction c"
  by (simp add: endCall_def Let_def split: option.splits)

lemma inbound_inv_hangupCall:
  assumes "inbound_inv s"
  shows "inbound_inv (fst (hangupCall s callId now))"
proof (cases "getCall s callId")
  case None
  with assms show ?thesis by (simp add: hangupCall_def)
next
  case (Some p)
  obtain a c where p: "p = (a, c)" by (cases p)
  from Some p have "heap s ! a = c" by (auto dest: getCall_SomeD)
  with assms have "inbound_inv (store s a (endCall c now))"
    by (intro inbound_inv_store) (simp_all add: unanswered_endCall direction_endCall)
  with Some p show ?thesis
    by (simp add: hangupCall_def Let_def inbound_inv_def store_def)
qed

lemma inbound_inv_hangupAll: "inbound_inv s \<Longrightarrow> inbound_inv (hangupAll s ks clock)"
  by (induction ks arbitrary: s clock) (simp_all add: inbound_inv_hangupCall)

lemma inbound_inv_answerCall:
  assumes "inbound_inv s"
  shows "inbound_inv (fst (answerCall s callId now))"
proof (cases "getCall s callId")
  case None
  with assms show ?thesis by (simp add: answerCall_def)
next
  case (Some p)
  obtain a c where p: "p = (a, c)" by (cases p)
  from Some p have "heap s ! a = c" by (auto dest: getCall_SomeD)
  with assms have "inbound_inv (store s a (c\<lparr>status := Connected, connectTime := Some now\<rparr>))"
    by (intro inbound_inv_store) (simp_all add: unanswered_def)
  with assms Some p show ?thesis by (simp add: answerCall_def)
qed

lemma inbound_inv_fireTimer:
  assumes "inbound_inv s"
  shows "inbound_inv (fireTimer s t now)"
proof (cases "t \<in> set (timers s)")
  case False
  with assms show ?thesis by (simp add: fireTimer_def)
next
  case True
  let ?s = "s\<lparr>timers := remove1 t (timers s)\<rparr>"
  from assms have r: "inbound_inv ?s" by (rule inbound_inv_remove)
  from assms True have out: "timer_outbound (heap s) t" by (simp add: inbound_inv_iff)
  have "inbound_inv (onTimer ?s t now)"
  proof (cases t)
    case (RingingTimer a)
    with out have "a < length (heap s)" "direction (heap s ! a) = Outbound"
      by (simp_all add: timer_outbound_def)
    then have "inbound_inv (store ?s a ((heap s ! a)\<lparr>status := Ringing\<rparr>))"
      by (intro inbound_inv_store r) (simp_all add: unanswered_def)
    with RingingTimer \<open>a < length (heap s)\<close> show ?thesis
      by (simp add: onTimer_def deref_def)
  next
    case (ConnectedTimer a)
    with out have "a < length (heap s)" "direction (heap s ! a) = Outbound"
      by (simp_all add: timer_outbound_def)
    then have "inbound_inv (store ?s a ((heap s ! a)\<lparr>status := Connected, connectTime := Some now\<rparr>))"
      by (intro inbound_inv_store r) (simp_all add: unanswered_def)
    with ConnectedTimer \<open>a < length (heap s)\<close> show ?thesis
      by (simp add: onTimer_def deref_def)
  next
    case (AutoHangupTimer callId a)
    with r show ?thesis
      by (simp add: onTimer_def inbound_inv_hangupCall split: option.splits)
  qed
  with True show ?thesis by (simp add: fireTimer_def)
qed

lemma inbound_inv_step:
  assumes "inbound_inv s"
  shows "inbound_inv (step s op)"
proof (cases op)
  case (Initialize b)
  with assms show ?thesis by (simp add: step_def inbound_inv_def initialize_def)
next
  case (ConnectBegin cfg)
  with assms show ?thesis
    by (auto simp: step_def inbound_inv_def connect_begin_def Let_def split: option.splits)
next
  case ConnectResume
  with assms show ?thesis by (simp add: step_def inbound_inv_def connect_resume_def)
next
  case (Disconnect clock)
  from assms have "inbound_inv (hangupAll s (map fst (activeCalls s)) clock)"
    by (rule inbound_inv_hangupAll)
  with assms Disconnect show ?thesis
    by (auto simp: step_def disconnect_def Let_def inbound_inv_def)
next
  case (MakeCall number opts rnd now)
  show ?thesis
  proof (cases "isConnected s \<and> currentConfig s \<noteq> None")
    case False
    with assms MakeCall show ?thesis by (auto simp: step_def makeCall_def Let_def)
  next
    case True
    then obtain sc where sc: "currentConfig s = Some sc" and "isConnected s" by auto
    with assms MakeCall show ?thesis
      by (simp add: step_def makeCall_def simulateCallConnection_def Let_def)
        (rule inbound_inv_new [where ts = "[_, _]", simplified],
          simp_all add: unanswered_def timer_outbound_def)
  qed
next
  case (SimulateIncomingCall fromNumber fromName rnd now)
  show ?thesis
  proof (cases "currentConfig s")
    case None
    with assms SimulateIncomingCall show ?thesis
      by (simp add: step_def simulateIncomingCall_def Let_def)
  next
    case (Some sc)
    with assms SimulateIncomingCall show ?thesis
      by (simp add: step_def simulateIncomingCall_def Let_def)
        (rule inbound_inv_new [where ts = "[_]", simplified],
          simp_all add: unanswered_def timer_outbound_def)
  qed
next
  case (AnswerCall callId now)
  with assms show ?thesis by (simp add: step_def inbound_inv_answerCall)
next
  case (HangupCall callId now)
  with assms show ?thesis by (simp add: step_def inbound_inv_hangupCall)
next
  case (FireTimer t now)
  with assms show ?thesis by (simp add: step_def inbound_inv_fireTimer)
next
  case (GetCallHistory limit)
  with assms show ?thesis by (simp add: step_def inbound_inv_def getCallHistory_def Let_def)
qed

lemma inbound_inv_reachable: "reachable s \<Longrightarrow> inbound_inv s"
proof (erule reachable_invariant)
  show "inbound_inv SIPService_new" by (simp add: inbound_inv_def SIPService_new_def)
qed (rule inbound_inv_step)

subsection \<open>Who writes \<open>connectTime\<close>\<close>

lemma deref_fields [simp]:
  "deref (s\<lparr>timers := ts\<rparr>) a = deref s a"
  "deref (s\<lparr>activeCalls := ac\<rparr>) a = deref s a"
  "deref (s\<lparr>callHistory := hs\<rparr>) a = deref s a"
  "deref (s\<lparr>isConnected := b\<rparr>) a = deref s a"
  "deref (s\<lparr>registrationState := r\<rparr>) a = deref s a"
  "deref (s\<lparr>currentConfig := cc\<rparr>) a = deref s a"
  "deref (s\<lparr>registering := n\<rparr>) a = deref s a"
  "deref (s\<lparr>audioContext := b\<rparr>) a = deref s a"
  by (simp_all add: deref_def)

lemma deref_append: "deref s a = Some c \<Longrightarrow> deref (s\<lparr>heap := heap s @ [c0]\<rparr>) a = Some c"
  by (auto simp: deref_def nth_append split: if_splits)

lemma connectTime_endCall: "connectTime (endCall c now) = connectTime c"
  by (simp add: endCall_def Let_def split: option.splits)

lemma hangupCall_connectTime:
  assumes "deref s a = Some c"
  shows "map_option connectTime (deref (fst (hangupCall s callId now)) a) = Some (connectTime c)"
proof (cases "getCall s callId")
  case None
  with assms show ?thesis by (simp add: hangupCall_def)
next
  case (Some p)
  obtain a' c0 where p: "p = (a', c0)" by (cases p)
  from Some p have "deref s a' = Some c0" by (auto simp: deref_def dest: getCall_SomeD)
  with assms Some p show ?thesis
    by (auto simp: hangupCall_def Let_def deref_store connectTime_endCall)
qed

lemma hangupAll_connectTime:
  "deref s a = Some c \<Longrightarrow>
   map_option connectTime (deref (hangupAll s ks clock) a) = Some (connectTime c)"
proof (induction ks arbitrary: s c clock)
  case Nil
  then show ?case by simp
next
  case (Cons k ks)
  from hangupCall_connectTime [OF Cons.prems, of k "clock 0"]
  obtain c1 where "deref (fst (hangupCall s k (clock 0))) a = Some c1"
    and "connectTime c1 = connectTime c" by auto
  with Cons.IH [of "fst (hangupCall s k (clock 0))" c1] show ?case by simp
qed

lemma fireTimer_connectTime:
  assumes "inbound_inv s" and "deref s a = Some c" and "direction c = Inbound"
  shows "map_option connectTime (deref (fireTimer s t now) a) = Some (connectTime c)"
proof (cases "t \<in> set (timers s)")
  case False
  with assms show ?thesis by (simp add: fireTimer_def)
next
  case True
  let ?s = "s\<lparr>timers := remove1 t (timers s)\<rparr>"
  from assms(2) have a: "a < length (heap s)" "heap s ! a = c"
    by (auto simp: deref_def split: if_splits)
  from assms(1) True have out: "timer_outbound (heap s) t" by (simp add: inbound_inv_iff)
  have "map_option connectTime (deref (onTimer ?s t now) a) = Some (connectTime c)"
  proof (cases t)
    case (RingingTimer a')
    with assms(2) show ?thesis
      by (auto simp: onTimer_def deref_store split: option.splits)
  next
    case (ConnectedTimer a')
    with out a assms(3) have "a' \<noteq> a" by (auto simp: timer_outbound_def)
    with ConnectedTimer assms(2) show ?thesis
      by (auto simp: onTimer_def deref_store split: option.splits)
  next
    case (AutoHangupTimer callId a')
    have "deref ?s a = Some c" using assms(2) by simp
    then have "map_option connectTime (deref (fst (hangupCall ?s callId now)) a) =
        Some (connectTime c)"
      by (rule hangupCall_connectTime)
    with AutoHangupTimer assms(2) show ?thesis
      by (simp add: onTimer_def split: option.splits)
  qed
  with True show ?thesis by (simp add: fireTimer_def)
qed

lemma answerCall_connectTime:
  assumes "inbound_inv s" and "deref s a = Some c" and "direction c = Inbound"
    and "deref (fst (answerCall s callId now)) a = Some c'"
    and "connectTime c' \<noteq> connectTime c"
  shows "getCall s callId = Some (a, c) \<and> status c = Ringing \<and> connectTime c = None \<and>
         c' = c\<lparr>status := Connected, connectTime := Some now\<rparr>"
proof (cases "getCall s callId")
  case None
  with assms show ?thesis by (simp add: answerCall_def)
next
  case (Some p)
  obtain a' c0 where p: "p = (a', c0)" by (cases p)
  from Some p have d0: "deref s a' = Some c0" by (auto simp: deref_def dest: getCall_SomeD)
  show ?thesis
  proof (cases "status c0 = Ringing")
    case False
    with assms Some p show ?thesis by (simp add: answerCall_def)
  next
    case True
    with Some p have f: "fst (answerCall s callId now) =
        store s a' (c0\<lparr>status := Connected, connectTime := Some now\<rparr>)"
      by (simp add: answerCall_def)
    show ?thesis
    proof (cases "a' = a")
      case False
      with assms f show ?thesis by (simp add: deref_store)
    next
      case same: True
      with d0 assms(2) have "c0 = c" by simp
      from assms(2) have "c \<in> set (heap s)"
        by (auto simp: deref_def split: if_splits)
      with assms(1) have "unanswered c" by (simp add: inbound_inv_iff)
      with assms(3) True \<open>c0 = c\<close> have "connectTime c = None" by (simp add: unanswered_def)
      moreover from assms(2) have "a < length (heap s)"
        by (simp add: deref_def split: if_splits)
      with assms(4) f same \<open>c0 = c\<close>
      have "c' = c\<lparr>status := Connected, connectTime := Some now\<rparr>"
        by (simp add: deref_store)
      ultimately show ?thesis using Some p same \<open>c0 = c\<close> True by simp
    qed
  qed
qed

lemma connectTime_step:
  assumes "inbound_inv s" and "deref s a = Some c" and "direction c = Inbound"
    and "deref (step s op) a = Some c'" and "connectTime c' \<noteq> connectTime c"
  shows "\<exists>callId now. op = AnswerCall callId now \<and> getCall s callId = Some (a, c) \<and>
           status c = Ringing \<and> connectTime c = None \<and>
           c' = c\<lparr>status := Connected, connectTime := Some now\<rparr>"
proof (cases op)
  case (Initialize b)
  with assms show ?thesis by (simp add: step_def initialize_def split: if_splits)
next
  case (ConnectBegin cfg)
  with assms show ?thesis
    by (auto simp: step_def connect_begin_def Let_def split: option.splits)
next
  case ConnectResume
  with assms show ?thesis by (simp add: step_def connect_resume_def split: if_splits)
next
  case (Disconnect clock)
  from hangupAll_connectTime [OF assms(2), of "map fst (activeCalls s)" clock]
  have "map_option connectTime (deref (fst (disconnect s clock)) a) = Some (connectTime c)"
    using assms(2) by (simp add: disconnect_def Let_def)
  with assms Disconnect show ?thesis by (simp add: step_def)
next
  case (MakeCall number opts rnd now)
  have "deref (fst (makeCall s number opts rnd now)) a = Some c"
    using assms(2)
    by (auto simp: makeCall_def simulateCallConnection_def Let_def deref_def nth_append
        split: option.splits if_splits)
  with assms MakeCall show ?thesis by (simp add: step_def)
next
  case (SimulateIncomingCall fromNumber fromName rnd now)
  have "deref (fst (simulateIncomingCall s fromNumber fromName rnd now)) a = Some c"
    using assms(2)
    by (auto simp: simulateIncomingCall_def Let_def deref_def nth_append
        split: option.splits if_splits)
  with assms SimulateIncomingCall show ?thesis by (simp add: step_def)
next
  case (AnswerCall callId now)
  with assms have "deref (fst (answerCall s callId now)) a = Some c'" by (simp add: step_def)
  from answerCall_connectTime [OF assms(1-3) this assms(5)] AnswerCall show ?thesis by simp
next
  case (HangupCall callId now)
  from hangupCall_connectTime [OF assms(2), of callId now] assms HangupCall
  show ?thesis by (simp add: step_def)
next
  case (FireTimer t now)
  from fireTimer_connectTime [OF assms(1-3), of t now] assms FireTimer
  show ?thesis by (simp add: step_def)
next
  case (GetCallHistory limit)
  with assms show ?thesis by (simp add: step_def getCallHistory_def Let_def)
qed

subsection \<open>The scenario, evaluated\<close>

lemma length_update:
  "length (AList.update k v xs) = (if k \<in> fst ` set xs then length xs else Suc (length xs))"
  by (induction xs) auto

lemma reachable_registered: "reachable registered"
  unfolding registered_def by (intro reachable_connect r_new)

lemma reachable_calling: "reachable calling"
  unfolding calling_def by (intro reachable_ops reachable_registered)

lemma reachable_ringing: "reachable ringing"
  unfolding ringing_def by (intro reachable_ops reachable_calling)

lemma reachable_talking: "reachable talking"
  unfolding talking_def by (intro reachable_ops reachable_ringing)

lemma connect_found:
  assumes "validateConfig cfg = None" and "provider cfg = Some key"
    and "lookupProvider key = Some p"
  shows "connect_begin s cfg =
           (s\<lparr>currentConfig := Some (effectiveConfig cfg p),
              registering := Suc (registering s)\<rparr>, Inr (effectiveConfig cfg p))"
    and "connect s cfg =
           (s\<lparr>currentConfig := Some (effectiveConfig cfg p), isConnected := True,
              registrationState := Registered\<rparr>, Inr (effectiveConfig cfg p))"
  using assms by (simp_all add: connect_def connect_begin_def connect_resume_def Let_def)

lemma validateConfig_alice: "validateConfig alice = None"
  by (simp add: validateConfig_def alice_def truthy_def lookupProvider_def sipProviders_def)

lemma lookup_FLEXPBX: "lookupProvider ''FLEXPBX'' = Some (preset ''FlexPBX'' ''flexpbx.local'' 5070 ''UDP''
        [''calls'', ''sms'', ''presence'', ''conference''])"
  by (simp add: lookupProvider_def sipProviders_def)

lemma effectiveConfig_alice:
  "effectiveConfig alice (preset ''FlexPBX'' ''flexpbx.local'' 5070 ''UDP''
        [''calls'', ''sms'', ''presence'', ''conference'']) = alice_sipConfig"
  by (simp add: effectiveConfig_def alice_def alice_sipConfig_def preset_def js_or_def
      js_or_num_def truthy_def truthy_num_def)

lemma connect_alice:
  "connect s alice =
     (s\<lparr>isConnected := True, currentConfig := Some alice_sipConfig,
        registrationState := Registered\<rparr>, Inr alice_sipConfig)"
proof -
  have "provider alice = Some ''FLEXPBX''" by (simp add: alice_def)
  from connect_found(2) [OF validateConfig_alice this lookup_FLEXPBX] show ?thesis
    by (simp add: effectiveConfig_alice)
qed

lemma registered_eq:
  "registered = SIPService_new\<lparr>isConnected := True, currentConfig := Some alice_sipConfig,
      registrationState := Registered\<rparr>"
  by (simp add: registered_def connect_alice)

lemma calling_eq:
  "calling = registered\<lparr>activeCalls := [(''call_0123456789abcdef'', 0)],
      heap := [scenario_call Connecting None], timers := [RingingTimer 0, ConnectedTimer 0]\<rparr>"
  by (simp add: calling_def registered_eq makeCall_def SIPService_new_def Let_def
      generateCallId_def simulateCallConnection_def alice_sipConfig_def scenario_call_def)

lemma ringing_eq:
  "ringing = registered\<lparr>activeCalls := [(''call_0123456789abcdef'', 0)],
      heap := [scenario_call Ringing None], timers := [ConnectedTimer 0]\<rparr>"
  by (simp add: ringing_def calling_eq fireTimer_def onTimer_def deref_def store_def
      scenario_call_def registered_eq SIPService_new_def)

lemma talking_eq:
  "talking = registered\<lparr>activeCalls := [(''call_0123456789abcdef'', 0)],
      heap := [scenario_call Connected (Some 3000)], timers := []\<rparr>"
  by (simp add: talking_def ringing_eq fireTimer_def onTimer_def deref_def store_def
      scenario_call_def registered_eq SIPService_new_def)


lemma getCall_calling: "getCall calling ''call_0123456789abcdef'' = Some (0, scenario_call Connecting None)"
  by (simp add: calling_eq getCall_def deref_def)

lemma getCall_ringing: "getCall ringing ''call_0123456789abcdef'' = Some (0, scenario_call Ringing None)"
  by (simp add: ringing_eq getCall_def deref_def)

lemma getCall_talking:
  "getCall talking ''call_0123456789abcdef'' = Some (0, scenario_call Connected (Some 3000))"
  by (simp add: talking_eq getCall_def deref_def)

lemma isConnected_scenario:
  "isConnected registered" "isConnected calling" "isConnected ringing" "isConnected talking"
  by (simp_all add: registered_eq calling_eq ringing_eq talking_eq)

lemma calling_fields:
  "activeCalls calling = [(''call_0123456789abcdef'', 0)]"
  "heap calling = [scenario_call Connecting None]"
  "callHistory calling = []"
  "currentConfig calling = Some alice_sipConfig"
  by (simp_all add: calling_eq registered_eq SIPService_new_def)

lemma registered_fields:
  "activeCalls registered = []" "heap registered = []" "timers registered = []"
  "currentConfig registered = Some alice_sipConfig"
  by (simp_all add: registered_eq SIPService_new_def)

lemma ringing_fields:
  "activeCalls ringing = [(''call_0123456789abcdef'', 0)]"
  "heap ringing = [scenario_call Ringing None]"
  "timers ringing = [ConnectedTimer 0]"
  by (simp_all add: ringing_eq)

lemma makeCall_connected:
  assumes "isConnected s" and "currentConfig s = Some sc"
  shows "makeCall s number opts rnd now =
     (s\<lparr>heap := heap s @
            [\<lparr>call_id = generateCallId rnd, direction = Outbound, remoteNumber = number,
              remoteName = None, localNumber = username sc, status = Connecting,
              startTime = now, connectTime = None, endTime = None, duration = 0,
              call_provider = provider sc, options = Some opts\<rparr>],
         activeCalls := AList.update (generateCallId rnd) (length (heap s)) (activeCalls s),
         timers := timers s @ [RingingTimer (length (heap s)), ConnectedTimer (length (heap s))]\<rparr>,
      Inr (generateCallId rnd))"
  using assms by (simp add: makeCall_def simulateCallConnection_def Let_def)

lemma connect_carol:
  "connect s carol =
     (s\<lparr>isConnected := True, currentConfig := Some carol_sipConfig,
        registrationState := Registered\<rparr>, Inr carol_sipConfig)"
proof -
  have v: "validateConfig carol = None"
    by (simp add: validateConfig_def carol_def truthy_def lookupProvider_def sipProviders_def)
  have p: "provider carol = Some ''CALLCENTRIC''" by (simp add: carol_def)
  have l: "lookupProvider ''CALLCENTRIC'' =
      Some (preset ''CallCentric'' ''sip.callcentric.com'' 5060 ''UDP'' [''calls'', ''sms''])"
    by (simp add: lookupProvider_def sipProviders_def)
  have "effectiveConfig carol
      (preset ''CallCentric'' ''sip.callcentric.com'' 5060 ''UDP'' [''calls'', ''sms'']) =
      carol_sipConfig"
    by (simp add: effectiveConfig_def carol_def carol_sipConfig_def preset_def js_or_def
        js_or_num_def truthy_def truthy_num_def)
  with connect_found(2) [OF v p l] show ?thesis by simp
qed

lemma carol_calling_fields:
  "isConnected carol_calling"
  "currentConfig carol_calling = Some carol_sipConfig"
  "activeCalls carol_calling = [(''call_0123456789abcdef'', 0)]"
  "length (heap carol_calling) = 1"
  by (simp_all add: carol_calling_def connect_carol makeCall_connected SIPService_new_def
      generateCallId_def)

lemma reachable_carol_calling: "reachable carol_calling"
  unfolding carol_calling_def by (intro reachable_ops reachable_connect r_new)

subsection \<open>Placing calls\<close>

text \<open>
  C1. \<open>makeCall\<close> on a service that is not connected fails with
  \<open>Not connected to SIP server\<close>: no call id is returned and the state, with its
  active calls and its call history, is the one before the call.
\<close>

theorem makeCall_not_connected:
  assumes "\<not> isConnected s"
  shows "makeCall s number opts rnd now = (s, Inl NotConnected)"
  using assms by (simp add: makeCall_def)

theorem makeCall_not_connected_witness:
  "\<not> isConnected SIPService_new \<and>
   makeCall SIPService_new ''5551234'' [] ''0123456789abcdef'' 0 = (SIPService_new, Inl NotConnected)"
  using makeCall_not_connected [of SIPService_new "''5551234''" "[]" "''0123456789abcdef''" 0]
  by (simp add: SIPService_new_def)

text \<open>
  In the reachable states the two flags of the session agree, so a service that is not
  in the registered state is one that is not connected.
\<close>

lemma reachable_connected_iff_registered:
  "reachable s \<Longrightarrow> isConnected s = (registrationState s = Registered)"
  by (drule session_inv_reachable) (simp add: session_inv_def)

text \<open>
  A connected service need not have a configuration: when \<open>disconnect\<close> runs during
  the wait of a second \<open>connect\<close>, that \<open>connect\<close> resumes on a cleared session and sets
  the flags. \<open>makeCall\<close> then fails on its read of \<open>this.currentConfig.username\<close>.
\<close>

lemma reconnected_eq:
  "reconnected = SIPService_new\<lparr>isConnected := True, registrationState := Registered\<rparr>"
proof -
  have "provider alice = Some ''FLEXPBX''" by (simp add: alice_def)
  from connect_found(1) [OF validateConfig_alice this lookup_FLEXPBX, of registered]
  have "fst (connect_begin registered alice) = registered\<lparr>registering := 1\<rparr>"
    by (simp add: effectiveConfig_alice registered_eq SIPService_new_def)
  then show ?thesis
    by (simp add: reconnected_def disconnect_def connect_resume_def registered_eq
        SIPService_new_def)
qed

lemma reachable_reconnected: "reachable reconnected"
  unfolding reconnected_def by (intro reachable_ops reachable_registered)

lemma makeCall_reconnected:
  "isConnected reconnected \<and> currentConfig reconnected = None \<and>
   makeCall reconnected number opts rnd now = (reconnected, Inl TypeError)"
  by (simp add: reconnected_eq SIPService_new_def makeCall_def)

text \<open>
  The feature service declares concurrent calls as a feature of the professional
  licence with a limit of five calls. Under the licence of the constructor,
  \<open>community\<close>, the feature is off and its limit reads \<open>0\<close>; under \<open>professional\<close> it
  reads \<open>5\<close>.
\<close>

lemma concurrent_calls_feature:
  "map_of defaultFeatures ''pro.concurrent_calls'' =
     Some (feature_decl False Professional ''Multiple Concurrent Calls'' [(''maxCalls'', 5)])"
  "\<not> isFeatureEnabled (initializeFeatures Community) ''pro.concurrent_calls''"
  "getFeatureLimit (initializeFeatures Community) ''pro.concurrent_calls'' ''maxCalls'' = Limit 0"
  "getFeatureLimit (initializeFeatures Professional) ''pro.concurrent_calls'' ''maxCalls'' = Limit 5"
  by (simp_all add: defaultFeatures_def initializeFeatures_def isFeatureEnabled_def
      getFeatureLimit_def isFeatureAllowed_def levelHierarchy_def feature_decl_def)

text \<open>
  C5. The claim: with one call active and concurrent calls not among the features, a
  further \<open>makeCall\<close> is rejected and the number of active calls stays. \<open>makeCall\<close>
  looks at \<open>isConnected\<close> only: on a session whose features are \<open>calls\<close> and \<open>sms\<close>,
  with one call active, a second \<open>makeCall\<close> returns a call id and the Map holds two
  calls.
\<close>

theorem makeCall_second_call:
  "map_option features (currentConfig carol_calling) = Some (Some [''calls'', ''sms'']) \<and>
   length (activeCalls carol_calling) = 1 \<and>
   snd (makeCall carol_calling ''5551234'' [] ''fedcba9876543210'' 10) =
     Inr ''call_fedcba9876543210'' \<and>
   activeCalls (fst (makeCall carol_calling ''5551234'' [] ''fedcba9876543210'' 10)) =
     [(''call_0123456789abcdef'', 0), (''call_fedcba9876543210'', 1)]"
  by (simp add: makeCall_connected [OF carol_calling_fields(1) carol_calling_fields(2)]
      carol_calling_fields generateCallId_def carol_sipConfig_def)

text \<open>
  C6, as the code has it. \<open>makeCall\<close> never looks at \<open>number\<close>: on a connected service
  that has a configuration it succeeds for every number, the empty string included,
  and the Map holds under the returned id a new outbound call in status \<open>connecting\<close>
  with that number as \<open>remoteNumber\<close> and the current time as \<open>startTime\<close>.
\<close>

theorem makeCall_any_number:
  assumes "isConnected s" and "currentConfig s = Some sc"
  shows "snd (makeCall s number opts rnd now) = Inr (generateCallId rnd) \<and>
         map_option (\<lambda>(a, c). (remoteNumber c, status c, direction c, startTime c))
           (getCall (fst (makeCall s number opts rnd now)) (generateCallId rnd)) =
         Some (number, Connecting, Outbound, now)"
  using assms by (simp add: makeCall_connected getCall_def deref_def AList.update_conv')

theorem makeCall_any_number_witness:
  "isConnected registered \<and> currentConfig registered = Some alice_sipConfig \<and>
   snd (makeCall registered [] [] ''0123456789abcdef'' 0) = Inr ''call_0123456789abcdef'' \<and>
   map_option (\<lambda>(a, c). (remoteNumber c, status c, direction c, startTime c))
     (getCall (fst (makeCall registered [] [] ''0123456789abcdef'' 0)) ''call_0123456789abcdef'') =
   Some ([], Connecting, Outbound, 0)"
  using makeCall_any_number [OF isConnected_scenario(1) registered_fields(4),
      of "[]" "[]" "''0123456789abcdef''" 0]
  by (simp add: isConnected_scenario registered_fields generateCallId_def)

text \<open>The claim fails on the empty number given to the registered service: the call is
  created.\<close>

theorem makeCall_empty_number_counterexample:
  "makeCall registered [] [] ''0123456789abcdef'' 0 =
     (registered\<lparr>heap := [(scenario_call Connecting None)\<lparr>remoteNumber := []\<rparr>],
                 activeCalls := [(''call_0123456789abcdef'', 0)],
                 timers := [RingingTimer 0, ConnectedTimer 0]\<rparr>,
      Inr ''call_0123456789abcdef'')"
  by (simp add: makeCall_connected [OF isConnected_scenario(1) registered_fields(4)]
      registered_fields generateCallId_def scenario_call_def alice_sipConfig_def)

subsection \<open>DTMF\<close>

text \<open>
  The SIP.js-backed sibling refuses to send DTMF unless its first call is connected.
\<close>

lemma enhanced_sendDTMF_requires_connected:
  "status c \<noteq> Connected \<Longrightarrow> enhanced_sendDTMF ((c, sipCall) # rest) accepts digits = Inl NoConnectedCall"
  by (simp add: enhanced_sendDTMF_def)

text \<open>
  C2. The claim: \<open>sendDTMF\<close> on a call that is not connected fails and dispatches no
  digit. \<open>SIPService.sendDTMF\<close> does not look at the status: on the call just
  placed, still \<open>connecting\<close>, it reports success and has handed both digits of \<open>12\<close>
  to \<open>simulateDTMFTone\<close>.
\<close>

theorem sendDTMF_ignores_status:
  "map_option (status \<circ> snd) (getCall calling ''call_0123456789abcdef'') = Some Connecting \<and>
   sendDTMF calling ''12'' =
     Inr \<lparr>sent_callId = ''call_0123456789abcdef'', sent_digits = ''12'',
          dispatched = [(CHR ''1'', None), (CHR ''2'', None)]\<rparr>"
proof -
  have "audioContext calling = False"
    by (simp add: calling_eq registered_eq SIPService_new_def)
  then have "dispatch calling ''12'' = [(CHR ''1'', None), (CHR ''2'', None)]"
    by (simp add: simulateDTMFTone_def)
  moreover have "activeCalls calling = [(''call_0123456789abcdef'', 0)]"
    and "deref calling 0 = Some (scenario_call Connecting None)"
    by (simp_all add: calling_eq deref_def)
  ultimately show ?thesis
    by (simp add: getCall_calling sendDTMF_def scenario_call_def)
qed

lemma fst_dispatch: "map fst (dispatch s digits) = digits"
  by (induction digits) simp_all

lemma dtmfFreqs_symbols: "(map_of dtmfFreqs digit = None) = (digit \<notin> set ''0123456789*#'')"
  by (auto simp: dtmfFreqs_def)

lemma tones_dispatch:
  "map (\<lambda>(digit, tone). tone \<noteq> None) (dispatch s digits) =
     map (\<lambda>digit. audioContext s \<and> digit \<in> set ''0123456789*#'') digits"
  by (induction digits) (simp_all add: simulateDTMFTone_def dtmfFreqs_symbols del: not_None_eq)

text \<open>
  C3, as the code has it. \<open>sendDTMF\<close> on a connected call validates nothing: it
  succeeds for every string \<open>digits\<close>, hands every character of it, in order, to
  \<open>simulateDTMFTone\<close>, and reports the whole string as sent. A tone is played for a
  character exactly when there is an audio context and the character is one of
  \<open>0\<close>-\<open>9\<close>, \<open>*\<close> and \<open>#\<close>; any other character, \<open>A\<close>-\<open>D\<close> included, is passed over
  in silence.
\<close>

theorem sendDTMF_no_validation:
  assumes "activeCalls s = (k, a) # rest" and "deref s a = Some c" and "status c = Connected"
  shows "sendDTMF s digits =
           Inr \<lparr>sent_callId = call_id c, sent_digits = digits, dispatched = dispatch s digits\<rparr> \<and>
         map fst (dispatch s digits) = digits \<and>
         map (\<lambda>(digit, tone). tone \<noteq> None) (dispatch s digits) =
           map (\<lambda>digit. audioContext s \<and> digit \<in> set ''0123456789*#'') digits"
proof (intro conjI)
  show "sendDTMF s digits =
      Inr \<lparr>sent_callId = call_id c, sent_digits = digits, dispatched = dispatch s digits\<rparr>"
    using assms by (simp add: sendDTMF_def)
qed (rule fst_dispatch, rule tones_dispatch)

lemma talking_calls:
  "activeCalls talking = [(''call_0123456789abcdef'', 0)]"
  "heap talking = [scenario_call Connected (Some 3000)]"
  "audioContext talking = False"
  by (simp_all add: talking_eq registered_eq SIPService_new_def)

theorem sendDTMF_no_validation_witness:
  "activeCalls (initialize talking True) = [(''call_0123456789abcdef'', 0)] \<and>
   deref (initialize talking True) 0 = Some (scenario_call Connected (Some 3000)) \<and>
   status (scenario_call Connected (Some 3000)) = Connected \<and>
   sendDTMF (initialize talking True) ''1XA'' =
     Inr \<lparr>sent_callId = ''call_0123456789abcdef'', sent_digits = ''1XA'',
          dispatched = dispatch (initialize talking True) ''1XA''\<rparr> \<and>
   map fst (dispatch (initialize talking True) ''1XA'') = ''1XA'' \<and>
   map (\<lambda>(digit, tone). tone \<noteq> None) (dispatch (initialize talking True) ''1XA'') =
     [True, False, False]"
proof -
  have a: "activeCalls (initialize talking True) = [(''call_0123456789abcdef'', 0)]"
    and d: "deref (initialize talking True) 0 = Some (scenario_call Connected (Some 3000))"
    and au: "audioContext (initialize talking True)"
    by (simp_all add: initialize_def deref_def talking_calls)
  have st: "status (scenario_call Connected (Some 3000)) = Connected"
    and ci: "call_id (scenario_call Connected (Some 3000)) = ''call_0123456789abcdef''"
    by (simp_all add: scenario_call_def)
  from sendDTMF_no_validation [OF a d st, of "''1XA''"] a d st show ?thesis
    by (simp add: au ci del: not_None_eq)
qed

text \<open>
  The claim fails on \<open>1X2\<close> sent to the connected call: the request succeeds and all
  three characters are dispatched; with an audio context the tones of \<open>1\<close> and \<open>2\<close>
  are played.
\<close>

theorem sendDTMF_1X2_counterexample:
  "map_option (status \<circ> snd) (getCall talking ''call_0123456789abcdef'') = Some Connected \<and>
   sendDTMF talking ''1X2'' =
     Inr \<lparr>sent_callId = ''call_0123456789abcdef'', sent_digits = ''1X2'',
          dispatched = [(CHR ''1'', None), (CHR ''X'', None), (CHR ''2'', None)]\<rparr> \<and>
   sendDTMF (initialize talking True) ''1X2'' =
     Inr \<lparr>sent_callId = ''call_0123456789abcdef'', sent_digits = ''1X2'',
          dispatched = [(CHR ''1'', Some (697, 1209)), (CHR ''X'', None),
                        (CHR ''2'', Some (697, 1336))]\<rparr>"
proof -
  have d: "deref talking 0 = Some (scenario_call Connected (Some 3000))"
    "deref (initialize talking True) 0 = Some (scenario_call Connected (Some 3000))"
    by (simp_all add: deref_def talking_calls initialize_def)
  have "dispatch talking ''1X2'' = [(CHR ''1'', None), (CHR ''X'', None), (CHR ''2'', None)]"
    by (simp add: simulateDTMFTone_def talking_calls)
  moreover have "dispatch (initialize talking True) ''1X2'' =
      [(CHR ''1'', Some (697, 1209)), (CHR ''X'', None), (CHR ''2'', Some (697, 1336))]"
    by (simp add: simulateDTMFTone_def initialize_def dtmfFreqs_def)
  moreover have "activeCalls (initialize talking True) = [(''call_0123456789abcdef'', 0)]"
    by (simp add: initialize_def talking_calls)
  ultimately show ?thesis
    by (simp add: getCall_talking sendDTMF_def talking_calls d scenario_call_def)
qed

subsection \<open>Hanging up\<close>

lemma getCall_after_hangup: "getCall (fst (hangupCall s callId now)) callId = None"
  by (cases "getCall s callId")
    (auto simp: hangupCall_def getCall_def Let_def store_def AList.delete_conv' split: option.splits)

lemma hangupCall_unknown: "getCall s callId = None \<Longrightarrow> hangupCall s callId now = (s, Inl CallNotFound)"
  by (simp add: hangupCall_def)

text \<open>
  C4, as the code has it. The first \<open>hangupCall\<close> on an active call succeeds, sets
  \<open>endTime\<close>, appends the call to the history and deletes it from the Map. A second
  \<open>hangupCall\<close> on the same id fails with \<open>Call not found\<close> (\<open>success: false\<close>) and
  leaves the state, and so the history, as it is; so does \<open>hangupCall\<close> on an id that
  is not in the Map.
\<close>

theorem hangupCall_twice:
  assumes "getCall s callId = Some (a, c)"
  shows "snd (hangupCall s callId t1) = Inr (callId, duration (endCall c t1)) \<and>
         endTime (endCall c t1) = Some t1 \<and>
         callHistory (fst (hangupCall s callId t1)) = callHistory s @ [endCall c t1] \<and>
         activeCalls (fst (hangupCall s callId t1)) = AList.delete callId (activeCalls s) \<and>
         hangupCall (fst (hangupCall s callId t1)) callId t2 =
           (fst (hangupCall s callId t1), Inl CallNotFound) \<and>
         (\<forall>k t. getCall s k = None \<longrightarrow> hangupCall s k t = (s, Inl CallNotFound))"
proof -
  have "endTime (endCall c t1) = Some t1"
    by (simp add: endCall_def Let_def split: option.splits)
  moreover have "hangupCall (fst (hangupCall s callId t1)) callId t2 =
      (fst (hangupCall s callId t1), Inl CallNotFound)"
    by (rule hangupCall_unknown) (rule getCall_after_hangup)
  ultimately show ?thesis
    using assms by (simp add: hangupCall_def Let_def store_def hangupCall_unknown)
qed

theorem hangupCall_twice_witness:
  "getCall calling ''call_0123456789abcdef'' = Some (0, scenario_call Connecting None) \<and>
   snd (hangupCall calling ''call_0123456789abcdef'' 500) = Inr (''call_0123456789abcdef'', 0) \<and>
   callHistory (fst (hangupCall calling ''call_0123456789abcdef'' 500)) =
     [(scenario_call Ended None)\<lparr>endTime := Some 500\<rparr>] \<and>
   activeCalls (fst (hangupCall calling ''call_0123456789abcdef'' 500)) = [] \<and>
   hangupCall (fst (hangupCall calling ''call_0123456789abcdef'' 500)) ''call_0123456789abcdef'' 600 =
     (fst (hangupCall calling ''call_0123456789abcdef'' 500), Inl CallNotFound)"
proof -
  have "endCall (scenario_call Connecting None) 500 = (scenario_call Ended None)\<lparr>endTime := Some 500\<rparr>"
    by (simp add: endCall_def scenario_call_def)
  moreover have "callHistory calling = []" "activeCalls calling = [(''call_0123456789abcdef'', 0)]"
    by (simp_all add: calling_eq registered_eq SIPService_new_def)
  ultimately show ?thesis
    using hangupCall_twice [OF getCall_calling, of 500 600] getCall_calling
    by (simp add: scenario_call_def)
qed

text \<open>
  The claim fails on the second \<open>hangupCall\<close> of the scenario's call and on an id that
  was never in the Map: both return the failure \<open>Call not found\<close>.
\<close>

theorem hangupCall_twice_counterexample:
  "snd (hangupCall (fst (hangupCall calling ''call_0123456789abcdef'' 500))
         ''call_0123456789abcdef'' 600) = Inl CallNotFound \<and>
   snd (hangupCall registered ''call_ffffffffffffffff'' 0) = Inl CallNotFound"
proof -
  have "getCall registered ''call_ffffffffffffffff'' = None"
    by (simp add: getCall_def registered_eq SIPService_new_def)
  then show ?thesis
    by (simp add: hangupCall_unknown getCall_after_hangup)
qed

text \<open>
  C9, as the code has it. When a call of a reachable state is hung up, the entry added
  to the history and the result carry \<open>endTime = now\<close> and a duration of
  \<open>now - connectTime\<close> if the call has a connect time and \<open>0\<close> if it has none. Both
  times are readings of \<open>new Date()\<close>: the duration is at least \<open>0\<close> exactly when the
  reading at hangup is not earlier than the connect time, and negative otherwise. Every
  entry of the history of a reachable state keeps its end time and that duration.
\<close>

theorem hangupCall_duration:
  assumes "reachable s" and "getCall s callId = Some (a, c)"
  shows "callHistory (fst (hangupCall s callId now)) = callHistory s @ [endCall c now] \<and>
         snd (hangupCall s callId now) = Inr (callId, duration (endCall c now)) \<and>
         endTime (endCall c now) = Some now \<and>
         connectTime (endCall c now) = connectTime c \<and>
         duration (endCall c now) = (case connectTime c of None \<Rightarrow> 0 | Some ct \<Rightarrow> now - ct) \<and>
         (0 \<le> duration (endCall c now)) = (case connectTime c of None \<Rightarrow> True | Some ct \<Rightarrow> ct \<le> now) \<and>
         list_all ended (callHistory (fst (hangupCall s callId now)))"
proof -
  from assms(1) have ci: "calls_inv s" by (rule calls_inv_reachable)
  from this assms(2) have d: "duration c = 0" by (rule duration_deref)
  have e: "endTime (endCall c now) = Some now" "connectTime (endCall c now) = connectTime c"
    by (simp_all add: endCall_def Let_def split: option.splits)
  have du: "duration (endCall c now) = (case connectTime c of None \<Rightarrow> 0 | Some ct \<Rightarrow> now - ct)"
    using d by (simp add: endCall_def Let_def split: option.splits)
  then have nn: "(0 \<le> duration (endCall c now)) =
      (case connectTime c of None \<Rightarrow> True | Some ct \<Rightarrow> ct \<le> now)"
    by (simp split: option.splits)
  from assms(1) have "history_inv s" by (rule history_inv_reachable)
  with ci have "history_inv (fst (hangupCall s callId now))" by (rule history_hangupCall)
  then have h: "list_all ended (callHistory (fst (hangupCall s callId now)))"
    by (simp add: history_inv_def)
  have "callHistory (fst (hangupCall s callId now)) = callHistory s @ [endCall c now]"
    and "snd (hangupCall s callId now) = Inr (callId, duration (endCall c now))"
    using assms(2) by (simp_all add: hangupCall_def Let_def store_def)
  with e du nn h show ?thesis by simp
qed

theorem hangupCall_duration_witness:
  "reachable talking \<and>
   getCall talking ''call_0123456789abcdef'' = Some (0, scenario_call Connected (Some 3000)) \<and>
   snd (hangupCall talking ''call_0123456789abcdef'' 63000) = Inr (''call_0123456789abcdef'', 60000) \<and>
   reachable calling \<and>
   getCall calling ''call_0123456789abcdef'' = Some (0, scenario_call Connecting None) \<and>
   snd (hangupCall calling ''call_0123456789abcdef'' 500) = Inr (''call_0123456789abcdef'', 0)"
proof -
  have "connectTime (scenario_call st ct) = ct" for st ct
    by (simp add: scenario_call_def)
  then show ?thesis
    using hangupCall_duration [OF reachable_talking getCall_talking, of 63000]
      hangupCall_duration [OF reachable_calling getCall_calling, of 500]
      reachable_talking reachable_calling
    by (simp add: getCall_talking getCall_calling)
qed

text \<open>
  The claim fails on the connected call of the scenario, connected at \<open>3000\<close>, when the
  clock reads \<open>2000\<close> at hangup: the duration returned and recorded is \<open>-1000\<close>.
\<close>

theorem hangupCall_duration_counterexample:
  "getCall talking ''call_0123456789abcdef'' = Some (0, scenario_call Connected (Some 3000)) \<and>
   snd (hangupCall talking ''call_0123456789abcdef'' 2000) = Inr (''call_0123456789abcdef'', - 1000) \<and>
   map duration (callHistory (fst (hangupCall talking ''call_0123456789abcdef'' 2000))) = [- 1000]"
proof -
  have "callHistory talking = []" by (simp add: talking_eq registered_eq SIPService_new_def)
  then show ?thesis
    by (simp add: hangupCall_def getCall_talking Let_def store_def endCall_def scenario_call_def)
qed

text \<open>
  The entry of the history is a copy. The call object itself stays in reach of its
  pending timers: hung up at \<open>500\<close> while still connecting, the scenario's call has its
  status and its connect time written again by the timer at \<open>3000\<close>, after its end
  time, while the entry of the history stays as it was.
\<close>

lemma hungup_call_rewritten:
  "map (\<lambda>c. (status c, connectTime c, endTime c, duration c))
     (heap (fireTimer (fst (hangupCall calling ''call_0123456789abcdef'' 500)) (ConnectedTimer 0) 3000)) =
     [(Connected, Some 3000, Some 500, 0)] \<and>
   map (\<lambda>c. (status c, connectTime c, endTime c, duration c))
     (callHistory (fireTimer (fst (hangupCall calling ''call_0123456789abcdef'' 500))
        (ConnectedTimer 0) 3000)) =
     [(Ended, None, Some 500, 0)]"
proof -
  let ?c = "endCall (scenario_call Connecting None) 500"
  have "fst (hangupCall calling ''call_0123456789abcdef'' 500) =
      (store calling 0 ?c)\<lparr>callHistory := callHistory (store calling 0 ?c) @ [?c],
        activeCalls := AList.delete ''call_0123456789abcdef'' (activeCalls (store calling 0 ?c))\<rparr>"
    by (simp add: hangupCall_def getCall_calling Let_def)
  also have "\<dots> =
      registered\<lparr>heap := [(scenario_call Ended None)\<lparr>endTime := Some 500\<rparr>],
                 callHistory := [(scenario_call Ended None)\<lparr>endTime := Some 500\<rparr>],
                 activeCalls := [],
                 timers := [RingingTimer 0, ConnectedTimer 0]\<rparr>"
    by (simp add: store_def endCall_def calling_eq scenario_call_def registered_eq
        SIPService_new_def)
  finally show ?thesis
    by (simp add: fireTimer_def onTimer_def store_def deref_def scenario_call_def
        registered_eq SIPService_new_def)
qed

subsection \<open>Answering\<close>

lemma getCall_store:
  "getCall s callId = Some (a, c) \<Longrightarrow> getCall (store s a c') callId = Some (a, c')"
  by (auto simp: getCall_def deref_def store_def split: option.splits if_splits)

lemma getCall_timers [simp]: "getCall (s\<lparr>timers := ts\<rparr>) k = getCall s k"
  by (simp add: getCall_def cong: option.case_cong)

lemma fireTimer_connects:
  assumes "List.member (timers s) (ConnectedTimer a)" and "getCall s k = Some (a, c)"
  shows "getCall (fireTimer s (ConnectedTimer a) now) k =
           Some (a, c\<lparr>status := Connected, connectTime := Some now\<rparr>)"
proof -
  let ?s = "s\<lparr>timers := remove1 (ConnectedTimer a) (timers s)\<rparr>"
  from assms(2) have g: "getCall ?s k = Some (a, c)" by simp
  then have "deref ?s a = Some c" by (auto simp: deref_def dest: getCall_SomeD)
  with g have "getCall (onTimer ?s (ConnectedTimer a) now) k =
      Some (a, c\<lparr>status := Connected, connectTime := Some now\<rparr>)"
    by (simp add: onTimer_def getCall_store)
  with assms(1) show ?thesis by (simp add: fireTimer_def)
qed

text \<open>
  C8, as the code has it. \<open>answerCall\<close> fails with \<open>Call not found\<close> for an id that is
  not in the Map and with \<open>Cannot answer call in state: ...\<close> for a call in any status
  but \<open>ringing\<close>, leaving the state as it is; on a ringing call it succeeds, and the call
  is then \<open>connected\<close> with \<open>connectTime = now\<close>. For an inbound call this is the only
  writer of \<open>connectTime\<close>: whatever step changes the connect time of an inbound call
  of a reachable state is an \<open>answerCall\<close> on that call, ringing and without a connect
  time before; so it is set at most once. An outbound call is connected by the second
  timer of \<open>simulateCallConnection\<close>: fired on an active call that is ringing and
  has no connect time, it makes the call \<open>connected\<close> with \<open>connectTime = now\<close>.
\<close>

theorem answerCall_requires_ringing:
  "(getCall s callId = None \<longrightarrow> answerCall s callId now = (s, Inl CallNotFound)) \<and>
   (\<forall>a c. getCall s callId = Some (a, c) \<and> status c \<noteq> Ringing \<longrightarrow>
      answerCall s callId now = (s, Inl (CannotAnswer (status c)))) \<and>
   (\<forall>a c. getCall s callId = Some (a, c) \<and> status c = Ringing \<longrightarrow>
      snd (answerCall s callId now) = Inr callId \<and>
      getCall (fst (answerCall s callId now)) callId =
        Some (a, c\<lparr>status := Connected, connectTime := Some now\<rparr>)) \<and>
   (\<forall>a c op c'. reachable s \<and> deref s a = Some c \<and> direction c = Inbound \<and>
          deref (step s op) a = Some c' \<and> connectTime c' \<noteq> connectTime c \<longrightarrow>
      (\<exists>k t. op = AnswerCall k t \<and> getCall s k = Some (a, c) \<and> status c = Ringing \<and>
             connectTime c = None \<and> c' = c\<lparr>status := Connected, connectTime := Some t\<rparr>)) \<and>
   (\<forall>k a c. List.member (timers s) (ConnectedTimer a) \<and> getCall s k = Some (a, c) \<and>
          direction c = Outbound \<and> status c = Ringing \<and> connectTime c = None \<longrightarrow>
      getCall (fireTimer s (ConnectedTimer a) now) k =
        Some (a, c\<lparr>status := Connected, connectTime := Some now\<rparr>))"
proof (intro conjI allI impI)
  assume "getCall s callId = None"
  then show "answerCall s callId now = (s, Inl CallNotFound)"
    by (simp add: answerCall_def)
next
  fix a c
  assume "getCall s callId = Some (a, c) \<and> status c \<noteq> Ringing"
  then show "answerCall s callId now = (s, Inl (CannotAnswer (status c)))"
    by (simp add: answerCall_def)
next
  fix a c
  assume "getCall s callId = Some (a, c) \<and> status c = Ringing"
  then show "snd (answerCall s callId now) = Inr callId"
    by (simp add: answerCall_def)
next
  fix a c
  assume "getCall s callId = Some (a, c) \<and> status c = Ringing"
  then show "getCall (fst (answerCall s callId now)) callId =
      Some (a, c\<lparr>status := Connected, connectTime := Some now\<rparr>)"
    by (simp add: answerCall_def getCall_store)
next
  fix a c op c'
  assume h: "reachable s \<and> deref s a = Some c \<and> direction c = Inbound \<and>
    deref (step s op) a = Some c' \<and> connectTime c' \<noteq> connectTime c"
  then have "inbound_inv s" by (simp add: inbound_inv_reachable)
  with h show "\<exists>k t. op = AnswerCall k t \<and> getCall s k = Some (a, c) \<and> status c = Ringing \<and>
      connectTime c = None \<and> c' = c\<lparr>status := Connected, connectTime := Some t\<rparr>"
    by (intro connectTime_step) simp_all
next
  fix k a c
  assume "List.member (timers s) (ConnectedTimer a) \<and> getCall s k = Some (a, c) \<and>
    direction c = Outbound \<and> status c = Ringing \<and> connectTime c = None"
  then show "getCall (fireTimer s (ConnectedTimer a) now) k =
      Some (a, c\<lparr>status := Connected, connectTime := Some now\<rparr>)"
    by (intro fireTimer_connects) simp_all
qed

lemma incoming_eq:
  "incoming = registered\<lparr>activeCalls := [(''call_00000000000000aa'', 0)],
      heap := [inbound_call Ringing None],
      timers := [AutoHangupTimer ''call_00000000000000aa'' 0]\<rparr>"
  by (simp add: incoming_def simulateIncomingCall_def registered_eq SIPService_new_def Let_def
      generateCallId_def inbound_call_def alice_sipConfig_def)

lemma reachable_incoming: "reachable incoming"
  unfolding incoming_def by (intro reachable_ops reachable_registered)

lemma incoming_fields:
  "deref incoming 0 = Some (inbound_call Ringing None)"
  "getCall incoming ''call_00000000000000aa'' = Some (0, inbound_call Ringing None)"
  by (simp_all add: incoming_eq deref_def getCall_def)

lemma inbound_call_fields:
  "status (inbound_call st ct) = st" "connectTime (inbound_call st ct) = ct"
  "direction (inbound_call st ct) = Inbound"
  "(inbound_call st ct)\<lparr>status := st', connectTime := ct'\<rparr> = inbound_call st' ct'"
  by (simp_all add: inbound_call_def)

lemma scenario_call_fields:
  "status (scenario_call st ct) = st" "connectTime (scenario_call st ct) = ct"
  "direction (scenario_call st ct) = Outbound"
  "(scenario_call st ct)\<lparr>status := st', connectTime := ct'\<rparr> = scenario_call st' ct'"
  by (simp_all add: scenario_call_def)

theorem answerCall_requires_ringing_witness:
  "getCall registered ''call_0123456789abcdef'' = None \<and>
   answerCall registered ''call_0123456789abcdef'' 2000 = (registered, Inl CallNotFound) \<and>
   answerCall calling ''call_0123456789abcdef'' 2000 = (calling, Inl (CannotAnswer Connecting)) \<and>
   answerCall talking ''call_0123456789abcdef'' 4000 = (talking, Inl (CannotAnswer Connected)) \<and>
   snd (answerCall incoming ''call_00000000000000aa'' 2000) = Inr ''call_00000000000000aa'' \<and>
   getCall (fst (answerCall incoming ''call_00000000000000aa'' 2000)) ''call_00000000000000aa'' =
     Some (0, inbound_call Connected (Some 2000)) \<and>
   reachable incoming \<and> deref incoming 0 = Some (inbound_call Ringing None) \<and>
   deref (step incoming (AnswerCall ''call_00000000000000aa'' 2000)) 0 =
     Some (inbound_call Connected (Some 2000)) \<and>
   List.member (timers ringing) (ConnectedTimer 0) \<and>
   getCall ringing ''call_0123456789abcdef'' = Some (0, scenario_call Ringing None) \<and>
   getCall (fireTimer ringing (ConnectedTimer 0) 3000) ''call_0123456789abcdef'' =
     Some (0, scenario_call Connected (Some 3000))"
proof -
  have n: "getCall registered ''call_0123456789abcdef'' = None"
    by (simp add: getCall_def registered_fields)
  have m: "ConnectedTimer 0 \<in> set (timers ringing)"
    by (simp add: ringing_fields)
  note t = answerCall_requires_ringing
  have answered: "snd (answerCall incoming ''call_00000000000000aa'' 2000) =
      Inr ''call_00000000000000aa'' \<and>
    getCall (fst (answerCall incoming ''call_00000000000000aa'' 2000)) ''call_00000000000000aa'' =
      Some (0, inbound_call Connected (Some 2000))"
    using t [of incoming "''call_00000000000000aa''" 2000]
    by (simp add: incoming_fields inbound_call_fields)
  then have stepped: "deref (step incoming (AnswerCall ''call_00000000000000aa'' 2000)) 0 =
      Some (inbound_call Connected (Some 2000))"
    by (auto simp: step_def deref_def dest!: getCall_SomeD)
  have timer: "getCall (fireTimer ringing (ConnectedTimer 0) 3000) ''call_0123456789abcdef'' =
      Some (0, scenario_call Connected (Some 3000))"
  proof -
    from t [of ringing "''call_0123456789abcdef''" 3000]
    have "List.member (timers ringing) (ConnectedTimer 0) \<and>
        getCall ringing ''call_0123456789abcdef'' = Some (0, scenario_call Ringing None) \<and>
        direction (scenario_call Ringing None) = Outbound \<and>
        status (scenario_call Ringing None) = Ringing \<and>
        connectTime (scenario_call Ringing None) = None \<longrightarrow>
        getCall (fireTimer ringing (ConnectedTimer 0) 3000) ''call_0123456789abcdef'' =
          Some (0, (scenario_call Ringing None)\<lparr>status := Connected, connectTime := Some 3000\<rparr>)"
      by blast
    then show ?thesis by (simp add: m getCall_ringing scenario_call_fields)
  qed
  show ?thesis
    using t [of registered "''call_0123456789abcdef''" 2000]
      t [of calling "''call_0123456789abcdef''" 2000]
      t [of talking "''call_0123456789abcdef''" 4000]
    by (simp add: n getCall_calling getCall_talking getCall_ringing scenario_call_fields m timer
        answered stepped reachable_incoming incoming_fields)
qed

text \<open>
  The claim fails on the scenario's outbound call: its connect time is set by the timer
  alone; and when the ringing call is answered first, the timer sets it a second time.
\<close>

theorem connectTime_counterexample:
  "map_option (connectTime \<circ> snd) (getCall ringing ''call_0123456789abcdef'') = Some None \<and>
   map_option (connectTime \<circ> snd) (getCall talking ''call_0123456789abcdef'') = Some (Some 3000) \<and>
   talking = fireTimer ringing (ConnectedTimer 0) 3000 \<and>
   map_option (connectTime \<circ> snd)
     (getCall (fst (answerCall ringing ''call_0123456789abcdef'' 2000)) ''call_0123456789abcdef'') =
     Some (Some 2000) \<and>
   map_option (connectTime \<circ> snd)
     (getCall (fireTimer (fst (answerCall ringing ''call_0123456789abcdef'' 2000))
        (ConnectedTimer 0) 3000) ''call_0123456789abcdef'') = Some (Some 3000)"
proof -
  have ct: "connectTime (scenario_call st ct) = ct" for st ct
    by (simp add: scenario_call_def)
  have a: "fst (answerCall ringing ''call_0123456789abcdef'' 2000) =
      store ringing 0 (scenario_call Connected (Some 2000))"
    by (simp add: answerCall_def getCall_ringing scenario_call_def)
  have c1: "map_option (connectTime \<circ> snd) (getCall ringing ''call_0123456789abcdef'') = Some None"
    by (simp add: getCall_ringing ct)
  have c2: "map_option (connectTime \<circ> snd) (getCall talking ''call_0123456789abcdef'') =
      Some (Some 3000)"
    by (simp add: getCall_talking ct)
  have c3: "talking = fireTimer ringing (ConnectedTimer 0) 3000"
    by (simp add: talking_def)
  have "getCall (store ringing 0 (scenario_call Connected (Some 2000))) ''call_0123456789abcdef'' =
      Some (0, scenario_call Connected (Some 2000))"
    using getCall_ringing by (rule getCall_store)
  then have c4: "map_option (connectTime \<circ> snd)
      (getCall (fst (answerCall ringing ''call_0123456789abcdef'' 2000)) ''call_0123456789abcdef'') =
      Some (Some 2000)"
    by (simp add: a ct)
  have "getCall (fireTimer (store ringing 0 (scenario_call Connected (Some 2000)))
      (ConnectedTimer 0) 3000) ''call_0123456789abcdef'' =
      Some (0, scenario_call Connected (Some 3000))"
    by (simp add: fireTimer_def onTimer_def store_def deref_def getCall_def ringing_fields
        scenario_call_def)
  then have c5: "map_option (connectTime \<circ> snd)
      (getCall (fireTimer (fst (answerCall ringing ''call_0123456789abcdef'' 2000))
         (ConnectedTimer 0) 3000) ''call_0123456789abcdef'') = Some (Some 3000)"
    by (simp add: a ct)
  show ?thesis by (intro conjI c1 c2 c3 c4 c5)
qed

subsection \<open>Connecting\<close>

text \<open>
  What \<open>validateConfig\<close> rejects. A provider is unknown when the read of
  \<open>this.sipProviders\<close> finds nothing, so a key that every object inherits, such as
  \<open>toString\<close>, counts as known and passes.
\<close>

lemma validateConfig_inherited_key:
  "validateConfig (alice\<lparr>provider := Some ''toString''\<rparr>) = None"
  by (simp add: validateConfig_def alice_def truthy_def lookupProvider_def sipProviders_def
      objectPrototype_def)

lemma validateConfig_fails_iff:
  "validateConfig cfg \<noteq> None \<longleftrightarrow>
     \<not> truthy (provider cfg) \<or> lookupProvider (the (provider cfg)) = None \<or>
     \<not> truthy (username cfg) \<or> \<not> truthy (password cfg) \<or>
     (provider cfg = Some ''CUSTOM'' \<and> \<not> truthy (server cfg))"
  by (simp add: validateConfig_def)

text \<open>
  C7, as the code has it. When \<open>validateConfig\<close> rejects the configuration, \<open>connect\<close>
  returns \<open>Invalid config: ...\<close> with the reason, and its \<open>catch\<close> block sets
  \<open>isConnected\<close> to \<open>false\<close> and \<open>registrationState\<close> to \<open>failed\<close>; the current
  configuration, the active calls, the call objects and the history stay as they are.
\<close>

theorem connect_invalid_config:
  assumes "validateConfig cfg = Some e"
  shows "connect s cfg =
           (s\<lparr>isConnected := False, registrationState := Failed\<rparr>, Inl (InvalidConfig e)) \<and>
         currentConfig (fst (connect s cfg)) = currentConfig s \<and>
         activeCalls (fst (connect s cfg)) = activeCalls s \<and>
         callHistory (fst (connect s cfg)) = callHistory s \<and>
         heap (fst (connect s cfg)) = heap s"
  using assms by (simp add: connect_def connect_begin_def)

lemma validateConfig_no_password:
  "validateConfig (alice\<lparr>password := None\<rparr>) = Some PasswordRequired"
  by (simp add: validateConfig_def alice_def truthy_def lookupProvider_def sipProviders_def)

theorem connect_invalid_config_witness:
  "validateConfig (alice\<lparr>password := None\<rparr>) = Some PasswordRequired \<and>
   connect calling (alice\<lparr>password := None\<rparr>) =
     (calling\<lparr>isConnected := False, registrationState := Failed\<rparr>,
      Inl (InvalidConfig PasswordRequired)) \<and>
   activeCalls (fst (connect calling (alice\<lparr>password := None\<rparr>))) =
     [(''call_0123456789abcdef'', 0)]"
  using connect_invalid_config [OF validateConfig_no_password, of calling]
  by (simp add: validateConfig_no_password calling_fields)

text \<open>
  The claim fails on a configuration without provider given to a new service, and on
  one without password given to the service of the scenario: the registration state
  changes to \<open>failed\<close>, and the connected service is no longer connected.
\<close>

theorem connect_invalid_config_counterexample:
  "registrationState SIPService_new = Unregistered \<and>
   validateConfig (alice\<lparr>provider := None\<rparr>) = Some ProviderRequired \<and>
   registrationState (fst (connect SIPService_new (alice\<lparr>provider := None\<rparr>))) = Failed \<and>
   isConnected calling \<and> registrationState calling = Registered \<and>
   \<not> isConnected (fst (connect calling (alice\<lparr>password := None\<rparr>))) \<and>
   registrationState (fst (connect calling (alice\<lparr>password := None\<rparr>))) = Failed"
proof -
  have "validateConfig (alice\<lparr>provider := None\<rparr>) = Some ProviderRequired"
    by (simp add: validateConfig_def alice_def truthy_def)
  moreover have "registrationState calling = Registered"
    by (simp add: calling_eq registered_eq)
  ultimately show ?thesis
    by (simp add: connect_def connect_begin_def validateConfig_no_password isConnected_scenario
        SIPService_new_def)
qed








lemma connect_resume_sets:
  "0 < registering s \<Longrightarrow>
   isConnected (connect_resume s) \<and> registrationState (connect_resume s) = Registered \<and>
   currentConfig (connect_resume s) = currentConfig s \<and>
   activeCalls (connect_resume s) = activeCalls s \<and>
   callHistory (connect_resume s) = callHistory s \<and> heap (connect_resume s) = heap s"
  by (simp add: connect_resume_def)



end
